theory Spec2Isabelle
  imports Main "HOL-Library.AList" "HOL-Library.Word"
begin

section \<open>Data model of \<open>internal/config/configfile.go\<close>\<close>

text \<open>
  Go strings are byte sequences and are modelled as \<open>string\<close> (a list of 8-bit
  characters). A slice \<open>[]string\<close> is a \<open>string list\<close>: the code inspects slices
  only through \<open>len\<close> and indexing, so the nil slice and the empty slice are both \<open>[]\<close>.

  A Go map is a reference that may be nil. It is modelled as an optional association
  list: \<open>None\<close> is the nil map, \<open>Some al\<close> an allocated map whose content is
  \<open>map_of al\<close>. Reading a nil map finds nothing, ranging over it does nothing, deleting
  from it does nothing, and storing into it panics.
\<close>

datatype error =
    NilMapAssign
  | IndexOutOfRange
  | OnlyOneOf string string
  | MustBeTogether string string
  | CountMismatch nat nat
  | ExecPipeNeedsPostExec
  | OutputFilesWithExecPipe
  | PluginNeedsNameAndPath
  | InvalidDatasource string
  | InvalidHeaderOption string
  | InvalidHeaderFormat string
  | ErrSyntax
  | ErrRange
  | CantGetWorkingDirectory
  | InvalidControlCharacter
  | MissingProtocolScheme
  | FirstPathSegmentColon
  | InvalidURLEscape string
  | CantParseValue string error

type_synonym ('k, 'v) gomap = "('k \<times> 'v) list option"

definition lookupM :: "('k, 'v) gomap \<Rightarrow> 'k \<Rightarrow> 'v option" where
  "lookupM m k = (case m of None \<Rightarrow> None | Some al \<Rightarrow> map_of al k)"

text \<open>
  \<open>rangeM\<close> lists the entries a \<open>for k, v := range m\<close> loop visits: every key once,
  with its value. The order of the list stands for the order the runtime picks.
\<close>

definition rangeM :: "('k, 'v) gomap \<Rightarrow> ('k \<times> 'v) list" where
  "rangeM m = (case m of None \<Rightarrow> [] | Some al \<Rightarrow> AList.clearjunk al)"

definition lenM :: "('k, 'v) gomap \<Rightarrow> nat" where
  "lenM m = length (rangeM m)"

definition storeM :: "('k, 'v) gomap \<Rightarrow> 'k \<Rightarrow> 'v \<Rightarrow> error + ('k, 'v) gomap" where
  "storeM m k v = (case m of None \<Rightarrow> Inl NilMapAssign | Some al \<Rightarrow> Inr (Some (AList.update k v al)))"

definition deleteM :: "('k, 'v) gomap \<Rightarrow> 'k \<Rightarrow> ('k, 'v) gomap" where
  "deleteM m k = (case m of None \<Rightarrow> None | Some al \<Rightarrow> Some (AList.delete k al))"

text \<open>
  A receiver map can take the entries of another map when it is allocated or when there
  is nothing to store.
\<close>

definition storable :: "('k, 'v) gomap \<Rightarrow> ('k, 'v) gomap \<Rightarrow> bool" where
  "storable d o' = (d \<noteq> None \<or> rangeM o' = [])"

text \<open>\<open>http.Header\<close> is \<open>map[string][]string\<close>.\<close>

type_synonym header = "(string, string list) gomap"

text \<open>
  \<open>url.URL\<close> of the standard library, without the \<open>OmitHost\<close> flag of recent
  releases (it only affects printing). \<open>User\<close> holds username, password and whether a
  password was given.
\<close>

type_synonym userinfo = "string \<times> string \<times> bool"

record url =
  Scheme :: string
  Opaque :: string
  User :: "userinfo option"
  Host :: string
  Path :: string
  RawPath :: string
  ForceQuery :: bool
  RawQuery :: string
  Fragment :: string
  RawFragment :: string

record DSConfig =
  URL :: "url option"
  Header :: header

type_synonym DSources = "(string, DSConfig) gomap"

text \<open>
  The two runtime handles of a Config. \<open>NewBuffer\<close> is a freshly allocated, empty
  \<open>bytes.Buffer\<close>; two fresh buffers are told apart only by their addresses.
\<close>

datatype stream = NoStream | OsStdin | OsStdout | NewBuffer

record Config =
  Input :: string
  InputFiles :: "string list"
  InputDir :: string
  ExcludeGlob :: "string list"
  OutputFiles :: "string list"
  OutputDir :: string
  OutputMap :: string
  SuppressEmpty :: bool
  ExecPipe :: bool
  PostExec :: "string list"
  OutMode :: string
  LDelim :: string
  RDelim :: string
  DataSources :: DSources
  Context :: DSources
  Plugins :: "(string, string) gomap"
  PluginTimeout :: "64 word"
  Templates :: "string list"
  ExtraHeaders :: "(string, header) gomap"
  PostExecInput :: stream
  OutWriter :: stream

text \<open>The zero value \<open>Config{}\<close>.\<close>

definition emptyConfig :: Config where
  "emptyConfig = \<lparr> Input = [], InputFiles = [], InputDir = [], ExcludeGlob = [],
     OutputFiles = [], OutputDir = [], OutputMap = [], SuppressEmpty = False,
     ExecPipe = False, PostExec = [], OutMode = [], LDelim = [], RDelim = [],
     DataSources = None, Context = None, Plugins = None, PluginTimeout = 0,
     Templates = [], ExtraHeaders = None, PostExecInput = NoStream, OutWriter = NoStream \<rparr>"

section \<open>isZero, notTogether, mustTogether\<close>

text \<open>The values passed as \<open>interface{}\<close>; \<open>VOther\<close> is any other dynamic type.\<close>

datatype gvalue = VString string | VStrings "string list" | VBool bool | VOther

fun isZero :: "gvalue \<Rightarrow> bool" where
  "isZero (VString v) = (v = [])"
| "isZero (VStrings v) = (length v = 0)"
| "isZero (VBool v) = (\<not> v)"
| "isZero VOther = False"

text \<open>
  The loop of \<open>notTogether\<close>, with the index \<open>i\<close> and the variable \<open>found\<close>.
  \<open>names[i]\<close> panics when \<open>i\<close> is out of range.
\<close>

fun notTogether_loop :: "string list \<Rightarrow> nat \<Rightarrow> gvalue list \<Rightarrow> string \<Rightarrow> error option" where
  "notTogether_loop names i [] found = None"
| "notTogether_loop names i (v # vs) found =
     (if isZero v then notTogether_loop names (Suc i) vs found
      else if found \<noteq> [] then
        (if i < length names then Some (OnlyOneOf found (names ! i)) else Some IndexOutOfRange)
      else if i < length names then notTogether_loop names (Suc i) vs (names ! i)
      else Some IndexOutOfRange)"

definition notTogether :: "string list \<Rightarrow> gvalue list \<Rightarrow> error option" where
  "notTogether names vals = notTogether_loop names 0 vals []"

definition mustTogether :: "string \<Rightarrow> string \<Rightarrow> gvalue \<Rightarrow> gvalue \<Rightarrow> error option" where
  "mustTogether left right lValue rValue =
     (if \<not> isZero lValue \<and> isZero rValue then Some (MustBeTogether left right) else None)"

section \<open>Merging\<close>

text \<open>\<open>DSConfig.mergeFrom\<close>: the receiver is a copy; its header map is never nil where it is stored into.\<close>

definition DSConfig_mergeFrom :: "DSConfig \<Rightarrow> DSConfig \<Rightarrow> DSConfig" where
  "DSConfig_mergeFrom d o' =
     (let d1 = (if URL o' \<noteq> None then d\<lparr>URL := URL o'\<rparr> else d)
      in case Header d1 of
           None \<Rightarrow> d1\<lparr>Header := Header o'\<rparr>
         | Some h \<Rightarrow> d1\<lparr>Header := Some (fold (\<lambda>(k, v) h'. AList.update k v h') (rangeM (Header o')) h)\<rparr>)"

text \<open>\<open>DSources.mergeFrom\<close>: the loop over the entries of \<open>o\<close>; a store into a nil receiver panics.\<close>

fun DSources_mergeFrom_loop :: "DSources \<Rightarrow> (string \<times> DSConfig) list \<Rightarrow> error + DSources" where
  "DSources_mergeFrom_loop d [] = Inr d"
| "DSources_mergeFrom_loop d ((k, v) # rest) =
     (case storeM d k (case lookupM d k of Some c \<Rightarrow> DSConfig_mergeFrom c v | None \<Rightarrow> v) of
        Inl e \<Rightarrow> Inl e
      | Inr d' \<Rightarrow> DSources_mergeFrom_loop d' rest)"

definition DSources_mergeFrom :: "DSources \<Rightarrow> DSources \<Rightarrow> error + DSources" where
  "DSources_mergeFrom d o' = DSources_mergeFrom_loop d (rangeM o')"

text \<open>The switch at the head of \<open>Config.MergeFrom\<close> (the input group).\<close>

definition mergeInputs :: "Config \<Rightarrow> Config \<Rightarrow> Config" where
  "mergeInputs c o' =
     (if \<not> isZero (VString (Input o')) then
        c\<lparr>Input := Input o', InputDir := [], InputFiles := [], OutputDir := []\<rparr>
      else if \<not> isZero (VString (InputDir o')) then
        c\<lparr>Input := [], InputDir := InputDir o', InputFiles := []\<rparr>
      else if \<not> isZero (VStrings (InputFiles o')) then
        (if \<not> (length (InputFiles o') = 1 \<and> InputFiles o' ! 0 = ''-'') then
           c\<lparr>Input := [], InputFiles := InputFiles o', InputDir := [], OutputDir := []\<rparr>
         else c)
      else c)"

text \<open>The sequence of \<open>if\<close> statements on the output group and the scalar fields.\<close>

definition mergeOutputs :: "Config \<Rightarrow> Config \<Rightarrow> Config" where
  "mergeOutputs c o' =
     (let c1 = (if \<not> isZero (VString (OutputMap o')) then
                  c\<lparr>OutputDir := [], OutputFiles := [], OutputMap := OutputMap o'\<rparr> else c);
          c2 = (if \<not> isZero (VString (OutputDir o')) then
                  c1\<lparr>OutputDir := OutputDir o', OutputFiles := [], OutputMap := []\<rparr> else c1);
          c3 = (if \<not> isZero (VStrings (OutputFiles o')) then
                  c2\<lparr>OutputDir := [], OutputFiles := OutputFiles o', OutputMap := []\<rparr> else c2);
          c4 = (if \<not> isZero (VBool (ExecPipe o')) then
                  c3\<lparr>ExecPipe := ExecPipe o', PostExec := PostExec o', OutputFiles := OutputFiles o'\<rparr>
                else c3)
      in c4)"

definition mergeScalars :: "Config \<Rightarrow> Config \<Rightarrow> Config" where
  "mergeScalars c o' =
     (let c1 = (if \<not> isZero (VStrings (ExcludeGlob o')) then c\<lparr>ExcludeGlob := ExcludeGlob o'\<rparr> else c);
          c2 = (if \<not> isZero (VString (OutMode o')) then c1\<lparr>OutMode := OutMode o'\<rparr> else c1);
          c3 = (if \<not> isZero (VString (LDelim o')) then c2\<lparr>LDelim := LDelim o'\<rparr> else c2);
          c4 = (if \<not> isZero (VString (RDelim o')) then c3\<lparr>RDelim := RDelim o'\<rparr> else c3);
          c5 = (if \<not> isZero (VStrings (Templates o')) then c4\<lparr>Templates := Templates o'\<rparr> else c4)
      in c5)"

text \<open>The loop \<open>for k, v := range o.Plugins { c.Plugins[k] = v }\<close>.\<close>

fun mergePlugins_loop :: "(string, string) gomap \<Rightarrow> (string \<times> string) list \<Rightarrow> error + (string, string) gomap" where
  "mergePlugins_loop p [] = Inr p"
| "mergePlugins_loop p ((k, v) # rest) =
     (case storeM p k v of Inl e \<Rightarrow> Inl e | Inr p' \<Rightarrow> mergePlugins_loop p' rest)"

text \<open>
  \<open>Config.MergeFrom\<close>. The receiver is updated in place and returned; a panic on the
  way is the result \<open>Inl\<close>.
\<close>

definition MergeFrom :: "Config \<Rightarrow> Config \<Rightarrow> error + Config" where
  "MergeFrom c o' =
     (let c1 = mergeScalars (mergeOutputs (mergeInputs c o') o') o'
      in case DSources_mergeFrom (DataSources c1) (DataSources o') of
           Inl e \<Rightarrow> Inl e
         | Inr ds \<Rightarrow>
             (case DSources_mergeFrom (Context c1) (Context o') of
                Inl e \<Rightarrow> Inl e
              | Inr cx \<Rightarrow>
                  (let c2 = c1\<lparr>DataSources := ds, Context := cx\<rparr>
                   in if lenM (Plugins o') > 0 then
                        (case mergePlugins_loop (Plugins c2) (rangeM (Plugins o')) of
                           Inl e \<Rightarrow> Inl e
                         | Inr p \<Rightarrow> Inr (c2\<lparr>Plugins := p\<rparr>))
                      else Inr c2)))"

section \<open>Validation\<close>

text \<open>\<open>Config.Validate\<close>: \<open>None\<close> is the nil error. Each check runs only while \<open>err == nil\<close>.\<close>

definition checkCounts :: "Config \<Rightarrow> error option" where
  "checkCounts c =
     (let f = length (InputFiles c);
          f = (if f = 0 \<and> Input c \<noteq> [] then 1 else f);
          o' = length (OutputFiles c)
      in if f \<noteq> o' \<and> \<not> ExecPipe c then Some (CountMismatch o' f) else None)"

definition checkPostExec :: "Config \<Rightarrow> error option" where
  "checkPostExec c =
     (if ExecPipe c \<and> length (PostExec c) = 0 then Some ExecPipeNeedsPostExec else None)"

definition checkPipeOutput :: "Config \<Rightarrow> error option" where
  "checkPipeOutput c =
     (if ExecPipe c \<and> (length (OutputFiles c) > 0 \<and> OutputFiles c ! 0 \<noteq> ''-'')
      then Some OutputFilesWithExecPipe else None)"

definition orElse :: "error option \<Rightarrow> error option \<Rightarrow> error option" where
  "orElse err next = (case err of None \<Rightarrow> next | Some e \<Rightarrow> Some e)"

definition Validate :: "Config \<Rightarrow> error option" where
  "Validate c =
     orElse (notTogether [''in'', ''inputFiles'', ''inputDir'']
               [VString (Input c), VStrings (InputFiles c), VString (InputDir c)])
    (orElse (notTogether [''outputFiles'', ''outputDir'', ''outputMap'']
               [VStrings (OutputFiles c), VString (OutputDir c), VString (OutputMap c)])
    (orElse (notTogether [''outputDir'', ''outputMap'', ''execPipe'']
               [VString (OutputDir c), VString (OutputMap c), VBool (ExecPipe c)])
    (orElse (mustTogether ''outputDir'' ''inputDir'' (VString (OutputDir c)) (VString (InputDir c)))
    (orElse (mustTogether ''outputMap'' ''inputDir'' (VString (OutputMap c)) (VString (InputDir c)))
    (orElse (checkCounts c)
    (orElse (checkPostExec c)
            (checkPipeOutput c)))))))"

section \<open>Defaults\<close>

text \<open>
  \<open>Config.ApplyDefaults\<close> is a sequence of statements on the receiver; each statement
  is one function here, in the order of the source. \<open>5 * time.Second\<close> is 5000000000
  nanoseconds.
\<close>

definition defaultOutputDir :: "Config \<Rightarrow> Config" where
  "defaultOutputDir c =
     (if InputDir c \<noteq> [] \<and> OutputDir c = [] \<and> OutputMap c = []
      then c\<lparr>OutputDir := ''.''\<rparr> else c)"

definition defaultInputFiles :: "Config \<Rightarrow> Config" where
  "defaultInputFiles c =
     (if Input c = [] \<and> InputDir c = [] \<and> length (InputFiles c) = 0
      then c\<lparr>InputFiles := [''-'']\<rparr> else c)"

definition defaultOutputFiles :: "Config \<Rightarrow> Config" where
  "defaultOutputFiles c =
     (if OutputDir c = [] \<and> OutputMap c = [] \<and> length (OutputFiles c) = 0 \<and> \<not> ExecPipe c
      then c\<lparr>OutputFiles := [''-'']\<rparr> else c)"

definition defaultLDelim :: "Config \<Rightarrow> Config" where
  "defaultLDelim c = (if LDelim c = [] then c\<lparr>LDelim := ''{{''\<rparr> else c)"

definition defaultRDelim :: "Config \<Rightarrow> Config" where
  "defaultRDelim c = (if RDelim c = [] then c\<lparr>RDelim := ''}}''\<rparr> else c)"

definition wireStreams :: "Config \<Rightarrow> Config" where
  "wireStreams c =
     (if ExecPipe c
      then c\<lparr>PostExecInput := NewBuffer, OutWriter := NewBuffer, OutputFiles := [''-'']\<rparr>
      else c\<lparr>PostExecInput := OsStdin, OutWriter := OsStdout\<rparr>)"

definition defaultPluginTimeout :: "Config \<Rightarrow> Config" where
  "defaultPluginTimeout c =
     (if PluginTimeout c = 0 then c\<lparr>PluginTimeout := 5 * 1000000000\<rparr> else c)"

definition ApplyDefaults :: "Config \<Rightarrow> Config" where
  "ApplyDefaults c =
     defaultPluginTimeout (wireStreams (defaultRDelim (defaultLDelim
       (defaultOutputFiles (defaultInputFiles (defaultOutputDir c))))))"

section \<open>File mode\<close>

text \<open>
  \<open>strconv.ParseUint(s, 8, bitSize)\<close> of the standard library, for the base the
  program passes: the digit loop with its syntax and range errors. The accumulator is a
  natural number; the cutoff test of the 64-bit accumulator is kept.
\<close>

definition digitVal :: "char \<Rightarrow> nat option" where
  "digitVal c =
     (let b = (of_char c :: nat)
      in if 48 \<le> b \<and> b \<le> 57 then Some (b - 48)
         else if 97 \<le> b \<and> b \<le> 122 then Some (b - 97 + 10)
         else if 65 \<le> b \<and> b \<le> 90 then Some (b - 65 + 10)
         else None)"

fun ParseUint8_loop :: "nat \<Rightarrow> string \<Rightarrow> nat \<Rightarrow> error + nat" where
  "ParseUint8_loop maxVal [] n = Inr n"
| "ParseUint8_loop maxVal (c # cs) n =
     (case digitVal c of
        None \<Rightarrow> Inl ErrSyntax
      | Some d \<Rightarrow>
          if d \<ge> 8 then Inl ErrSyntax
          else if n \<ge> (2 ^ 64 - 1) div 8 + 1 then Inl ErrRange
          else if n * 8 + d > maxVal then Inl ErrRange
          else ParseUint8_loop maxVal cs (n * 8 + d))"

definition ParseUint8 :: "string \<Rightarrow> nat \<Rightarrow> error + nat" where
  "ParseUint8 s bitSize = (if s = [] then Inl ErrSyntax else ParseUint8_loop (2 ^ bitSize - 1) s 0)"

text \<open>\<open>Config.GetMode\<close>: \<open>os.FileMode\<close> is a 32-bit unsigned integer; \<open>0644\<close> is octal.\<close>

definition GetMode :: "Config \<Rightarrow> error + (32 word \<times> bool)" where
  "GetMode c =
     (let modeOverride = (OutMode c \<noteq> [])
      in case ParseUint8 (''0'' @ OutMode c) 32 of
           Inl e \<Rightarrow> Inl e
         | Inr m \<Rightarrow>
             (let mode = (word_of_nat m :: 32 word);
                  mode = (if mode = 0 \<and> Input c \<noteq> [] then 0x1A4 else mode)
              in Inr (mode, modeOverride)))"

section \<open>The environment\<close>

text \<open>
  What the code takes from the operating system and from library functions that are not
  modelled here: the working directory (\<open>os.Getwd\<close>, \<open>None\<close> when it fails), the path
  separator and \<open>filepath.VolumeName\<close> of the platform, the authority parser of
  \<open>net/url\<close> (user information and host), \<open>http.CanonicalHeaderKey\<close> and
  \<open>strings.TrimSpace\<close>. Every function below that depends on one of them takes the
  environment as its first argument.
\<close>

record env =
  Getwd :: "string option"
  Separator :: char
  VolumeName :: "string \<Rightarrow> string"
  parseAuthority :: "string \<Rightarrow> error + (userinfo option \<times> string)"
  CanonicalHeaderKey :: "string \<Rightarrow> string"
  TrimSpace :: "string \<Rightarrow> string"

text \<open>
  A Unix-like sample environment for the concrete evaluations: working directory
  \<open>/home/user\<close>, separator \<open>/\<close>, no volume names. The three library functions are
  stand-ins that agree with the library on the inputs evaluated below (an authority
  without user information, a header key already canonical, a value padded with spaces).
\<close>

definition sampleEnv :: env where
  "sampleEnv = \<lparr> Getwd = Some ''/home/user'', Separator = CHR ''/'',
     VolumeName = (\<lambda>_. []), parseAuthority = (\<lambda>a. Inr (None, a)),
     CanonicalHeaderKey = (\<lambda>k. k),
     TrimSpace = (\<lambda>v. rev (dropWhile (\<lambda>c. c = CHR '' '') (rev (dropWhile (\<lambda>c. c = CHR '' '') v)))) \<rparr>"

section \<open>String functions of the standard library\<close>

text \<open>\<open>strings.Cut\<close> at a one-byte separator: the text before and after its first occurrence.\<close>

fun Cut :: "char \<Rightarrow> string \<Rightarrow> (string \<times> string) option" where
  "Cut sep [] = None"
| "Cut sep (c # cs) =
     (if c = sep then Some ([], cs)
      else (case Cut sep cs of None \<Rightarrow> None | Some (a, b) \<Rightarrow> Some (c # a, b)))"

text \<open>\<open>strings.SplitN(s, sep, 2)\<close>: one or two parts.\<close>

definition SplitN2 :: "string \<Rightarrow> char \<Rightarrow> string list" where
  "SplitN2 s sep = (case Cut sep s of None \<Rightarrow> [s] | Some (a, b) \<Rightarrow> [a, b])"

text \<open>\<open>strings.Split\<close> and \<open>strings.Join\<close> at a one-byte separator.\<close>

fun Split :: "char \<Rightarrow> string \<Rightarrow> string list" where
  "Split sep [] = [[]]"
| "Split sep (c # cs) =
     (if c = sep then [] # Split sep cs
      else (case Split sep cs of [] \<Rightarrow> [[c]] | x # xs \<Rightarrow> (c # x) # xs))"

fun Join :: "char \<Rightarrow> string list \<Rightarrow> string" where
  "Join sep [] = []"
| "Join sep [x] = x"
| "Join sep (x # y # ys) = x @ sep # Join sep (y # ys)"

definition HasPrefix :: "string \<Rightarrow> string \<Rightarrow> bool" where
  "HasPrefix s pre = (take (length pre) s = pre)"

definition HasSuffix :: "string \<Rightarrow> string \<Rightarrow> bool" where
  "HasSuffix s suf = (length suf \<le> length s \<and> drop (length s - length suf) s = suf)"

definition TrimPrefix :: "string \<Rightarrow> string \<Rightarrow> string" where
  "TrimPrefix s pre = (if HasPrefix s pre then drop (length pre) s else s)"

text \<open>\<open>strings.LastIndex\<close> of a byte: \<open>None\<close> is \<open>-1\<close>.\<close>

fun LastIndex :: "string \<Rightarrow> char \<Rightarrow> nat option" where
  "LastIndex [] sep = None"
| "LastIndex (c # cs) sep =
     (case LastIndex cs sep of
        Some i \<Rightarrow> Some (Suc i)
      | None \<Rightarrow> if c = sep then Some 0 else None)"

definition isAlpha :: "char \<Rightarrow> bool" where
  "isAlpha c = (let b = (of_char c :: nat) in (97 \<le> b \<and> b \<le> 122) \<or> (65 \<le> b \<and> b \<le> 90))"

definition isDigit :: "char \<Rightarrow> bool" where
  "isDigit c = (let b = (of_char c :: nat) in 48 \<le> b \<and> b \<le> 57)"

text \<open>\<open>strings.ToLower\<close> on the ASCII letters (a scheme has no other letters).\<close>

definition ToLower :: "string \<Rightarrow> string" where
  "ToLower s = map (\<lambda>c. let b = (of_char c :: nat) in if 65 \<le> b \<and> b \<le> 90 then char_of (b + 32) else c) s"

text \<open>\<open>filepath.ToSlash\<close>.\<close>

definition ToSlash :: "env \<Rightarrow> string \<Rightarrow> string" where
  "ToSlash e path =
     (if Separator e = CHR ''/'' then path
      else map (\<lambda>c. if c = Separator e then CHR ''/'' else c) path)"

text \<open>\<open>path.Base\<close>.\<close>

definition stripTrailingSlashes :: "string \<Rightarrow> string" where
  "stripTrailingSlashes path = rev (dropWhile (\<lambda>c. c = CHR ''/'') (rev path))"

definition Base :: "string \<Rightarrow> string" where
  "Base path =
     (if path = [] then ''.''
      else let p1 = stripTrailingSlashes path;
               p2 = (case LastIndex p1 (CHR ''/'') of Some i \<Rightarrow> drop (Suc i) p1 | None \<Rightarrow> p1)
           in if p2 = [] then ''/'' else p2)"

section \<open>URLs: \<open>net/url\<close>\<close>

text \<open>
  The part of \<open>net/url\<close> that \<open>parseSourceURL\<close> and \<open>absFileURL\<close> run: \<open>Parse\<close>,
  \<open>IsAbs\<close>, \<open>EscapedPath\<close> and \<open>ResolveReference\<close>, with percent-escaping in the two
  modes they use (paths and fragments). The wrapping of a parse error into \<open>url.Error\<close>
  is left out: the inner error is returned.
\<close>

definition emptyURL :: url where
  "emptyURL = \<lparr> Scheme = [], Opaque = [], User = None, Host = [], Path = [], RawPath = [],
     ForceQuery = False, RawQuery = [], Fragment = [], RawFragment = [] \<rparr>"

datatype encoding = encodePath | encodeFragment

definition shouldEscape :: "char \<Rightarrow> encoding \<Rightarrow> bool" where
  "shouldEscape c mode =
     (if isAlpha c \<or> isDigit c then False
      else if c \<in> set ''-_.~'' then False
      else if c \<in> set ''$&+,/:;=?@'' then
        (case mode of encodePath \<Rightarrow> c = CHR ''?'' | encodeFragment \<Rightarrow> False)
      else if mode = encodeFragment \<and> c \<in> set ''!()*'' then False
      else True)"

definition ishex :: "char \<Rightarrow> bool" where
  "ishex c = (let b = (of_char c :: nat)
     in (48 \<le> b \<and> b \<le> 57) \<or> (97 \<le> b \<and> b \<le> 102) \<or> (65 \<le> b \<and> b \<le> 70))"

definition unhex :: "char \<Rightarrow> nat" where
  "unhex c = (let b = (of_char c :: nat)
     in if 48 \<le> b \<and> b \<le> 57 then b - 48
        else if 97 \<le> b \<and> b \<le> 102 then b - 97 + 10
        else if 65 \<le> b \<and> b \<le> 70 then b - 65 + 10
        else 0)"

definition upperhex :: "nat \<Rightarrow> char" where
  "upperhex n = ''0123456789ABCDEF'' ! n"

definition escapeByte :: "char \<Rightarrow> encoding \<Rightarrow> string" where
  "escapeByte c mode =
     (if shouldEscape c mode
      then [CHR ''%'', upperhex ((of_char c :: nat) div 16), upperhex ((of_char c :: nat) mod 16)]
      else [c])"

definition escape :: "string \<Rightarrow> encoding \<Rightarrow> string" where
  "escape s mode = concat (map (\<lambda>c. escapeByte c mode) s)"

text \<open>
  \<open>unescape\<close> in the path and fragment modes: every \<open>%XX\<close> is decoded; the first
  malformed escape is the error, with at most three bytes of it.
\<close>

fun unescape :: "string \<Rightarrow> encoding \<Rightarrow> error + string" where
  "unescape [] mode = Inr []"
| "unescape (c # cs) mode =
     (if c = CHR ''%'' then
        (case cs of
           a # b # rest \<Rightarrow>
             if ishex a \<and> ishex b then
               (case unescape rest mode of
                  Inl e \<Rightarrow> Inl e
                | Inr t \<Rightarrow> Inr (char_of (unhex a * 16 + unhex b) # t))
             else Inl (InvalidURLEscape (take 3 (c # cs)))
         | _ \<Rightarrow> Inl (InvalidURLEscape (take 3 (c # cs))))
      else (case unescape cs mode of Inl e \<Rightarrow> Inl e | Inr t \<Rightarrow> Inr (c # t)))"

definition validEncodedByte :: "char \<Rightarrow> encoding \<Rightarrow> bool" where
  "validEncodedByte c mode =
     (if c \<in> set ''!$&'' \<or> c = CHR 0x27 \<or> c \<in> set ''()*+,;=:@'' then True
      else if c \<in> set ''[]'' then True
      else if c = CHR ''%'' then True
      else \<not> shouldEscape c mode)"

definition validEncoded :: "string \<Rightarrow> encoding \<Rightarrow> bool" where
  "validEncoded s mode = list_all (\<lambda>c. validEncodedByte c mode) s"

definition setPath :: "url \<Rightarrow> string \<Rightarrow> error + url" where
  "setPath u p =
     (case unescape p encodePath of
        Inl e \<Rightarrow> Inl e
      | Inr path \<Rightarrow>
          Inr (u\<lparr>Path := path, RawPath := (if p = escape path encodePath then [] else p)\<rparr>))"

definition setFragment :: "url \<Rightarrow> string \<Rightarrow> error + url" where
  "setFragment u f =
     (case unescape f encodeFragment of
        Inl e \<Rightarrow> Inl e
      | Inr frag \<Rightarrow>
          Inr (u\<lparr>Fragment := frag, RawFragment := (if f = escape frag encodeFragment then [] else f)\<rparr>))"

definition EscapedPath :: "url \<Rightarrow> string" where
  "EscapedPath u =
     (if RawPath u \<noteq> [] \<and> validEncoded (RawPath u) encodePath \<and>
         unescape (RawPath u) encodePath = Inr (Path u)
      then RawPath u
      else if Path u = ''*'' then ''*''
      else escape (Path u) encodePath)"

text \<open>\<open>getScheme\<close>: the loop over the bytes of the raw URL, with the index \<open>i\<close>.\<close>

fun getScheme_loop :: "string \<Rightarrow> nat \<Rightarrow> string \<Rightarrow> error + (string \<times> string)" where
  "getScheme_loop rawURL i [] = Inr ([], rawURL)"
| "getScheme_loop rawURL i (c # cs) =
     (if isAlpha c then getScheme_loop rawURL (Suc i) cs
      else if isDigit c \<or> c = CHR ''+'' \<or> c = CHR ''-'' \<or> c = CHR ''.'' then
        (if i = 0 then Inr ([], rawURL) else getScheme_loop rawURL (Suc i) cs)
      else if c = CHR '':'' then
        (if i = 0 then Inl MissingProtocolScheme else Inr (take i rawURL, drop (Suc i) rawURL))
      else Inr ([], rawURL))"

definition getScheme :: "string \<Rightarrow> error + (string \<times> string)" where
  "getScheme rawURL = getScheme_loop rawURL 0 rawURL"

definition stringContainsCTLByte :: "string \<Rightarrow> bool" where
  "stringContainsCTLByte s = list_ex (\<lambda>c. (of_char c :: nat) < 32 \<or> (of_char c :: nat) = 127) s"

text \<open>The query part: a lone trailing \<open>?\<close> forces an empty query, otherwise the text after the first \<open>?\<close>.\<close>

definition splitQuery :: "url \<Rightarrow> string \<Rightarrow> string \<times> url" where
  "splitQuery u rest =
     (if HasSuffix rest ''?'' \<and> count_list rest (CHR ''?'') = 1
      then (butlast rest, u\<lparr>ForceQuery := True\<rparr>)
      else (case Cut (CHR ''?'') rest of
              None \<Rightarrow> (rest, u)
            | Some (a, q) \<Rightarrow> (a, u\<lparr>RawQuery := q\<rparr>)))"

definition firstSegment :: "string \<Rightarrow> string" where
  "firstSegment rest = (case Cut (CHR ''/'') rest of None \<Rightarrow> rest | Some (a, b) \<Rightarrow> a)"

text \<open>\<open>parse(rawURL, viaRequest = false)\<close>.\<close>

definition parse :: "env \<Rightarrow> string \<Rightarrow> error + url" where
  "parse e rawURL =
     (if stringContainsCTLByte rawURL then Inl InvalidControlCharacter
      else if rawURL = ''*'' then Inr (emptyURL\<lparr>Path := ''*''\<rparr>)
      else
        (case getScheme rawURL of
           Inl err \<Rightarrow> Inl err
         | Inr (scheme, rest0) \<Rightarrow>
             (case splitQuery (emptyURL\<lparr>Scheme := ToLower scheme\<rparr>) rest0 of
                (rest, u) \<Rightarrow>
                  if \<not> HasPrefix rest ''/'' \<and> Scheme u \<noteq> [] then Inr (u\<lparr>Opaque := rest\<rparr>)
                  else if \<not> HasPrefix rest ''/'' \<and> CHR '':'' \<in> set (firstSegment rest)
                  then Inl FirstPathSegmentColon
                  else if (Scheme u \<noteq> [] \<or> \<not> HasPrefix rest ''///'') \<and> HasPrefix rest ''//'' then
                    (let authority0 = drop 2 rest;
                         authority = (case Cut (CHR ''/'') authority0 of None \<Rightarrow> authority0 | Some (a, b) \<Rightarrow> a);
                         rest' = (case Cut (CHR ''/'') authority0 of None \<Rightarrow> [] | Some (a, b) \<Rightarrow> CHR ''/'' # b)
                     in case parseAuthority e authority of
                          Inl err \<Rightarrow> Inl err
                        | Inr (user, host) \<Rightarrow> setPath (u\<lparr>User := user, Host := host\<rparr>) rest')
                  else setPath u rest)))"

text \<open>\<open>url.Parse\<close>.\<close>

definition url_Parse :: "env \<Rightarrow> string \<Rightarrow> error + url" where
  "url_Parse e rawURL =
     (let u = (case Cut (CHR ''#'') rawURL of None \<Rightarrow> rawURL | Some (a, b) \<Rightarrow> a);
          frag = (case Cut (CHR ''#'') rawURL of None \<Rightarrow> [] | Some (a, b) \<Rightarrow> b)
      in case parse e u of
           Inl err \<Rightarrow> Inl err
         | Inr url \<Rightarrow> if frag = [] then Inr url else setFragment url frag)"

definition IsAbs :: "url \<Rightarrow> bool" where
  "IsAbs u = (Scheme u \<noteq> [])"

text \<open>
  \<open>resolvePath\<close>, in the split-and-join formulation of the library: the segments \<open>.\<close>
  are dropped, a segment \<open>..\<close> removes the segment before it.
\<close>

fun removeDots :: "string list \<Rightarrow> string list \<Rightarrow> string list" where
  "removeDots dst [] = dst"
| "removeDots dst (elem # src) =
     (if elem = ''.'' then removeDots dst src
      else if elem = ''..'' then removeDots (if length dst > 0 then butlast dst else dst) src
      else removeDots (dst @ [elem]) src)"

definition resolvePath :: "string \<Rightarrow> string \<Rightarrow> string" where
  "resolvePath base ref =
     (let full = (if ref = [] then base
                  else if ref ! 0 \<noteq> CHR ''/'' then
                    (case LastIndex base (CHR ''/'') of
                       Some i \<Rightarrow> take (Suc i) base @ ref
                     | None \<Rightarrow> ref)
                  else ref)
      in if full = [] then []
         else let src = Split (CHR ''/'') full;
                  dst = removeDots [] src;
                  dst' = (if last src = ''.'' \<or> last src = ''..'' then dst @ [[]] else dst)
              in CHR ''/'' # TrimPrefix (Join (CHR ''/'') dst') ''/'')"

text \<open>\<open>setPath\<close> where its error is ignored: the URL then stays as it was.\<close>

definition setPath_ignoring :: "url \<Rightarrow> string \<Rightarrow> url" where
  "setPath_ignoring u p = (case setPath u p of Inl e \<Rightarrow> u | Inr u' \<Rightarrow> u')"

definition ResolveReference :: "url \<Rightarrow> url \<Rightarrow> url" where
  "ResolveReference u ref =
     (let url = (if Scheme ref = [] then ref\<lparr>Scheme := Scheme u\<rparr> else ref)
      in if Scheme ref \<noteq> [] \<or> Host ref \<noteq> [] \<or> User ref \<noteq> None then
           setPath_ignoring url (resolvePath (EscapedPath ref) [])
         else if Opaque ref \<noteq> [] then url\<lparr>User := None, Host := [], Path := []\<rparr>
         else
           (let url1 = (if Path ref = [] \<and> \<not> ForceQuery ref \<and> RawQuery ref = [] then
                          (let q = url\<lparr>RawQuery := RawQuery u\<rparr>
                           in if Fragment ref = []
                              then q\<lparr>Fragment := Fragment u, RawFragment := RawFragment u\<rparr>
                              else q)
                        else url)
            in if Path ref = [] \<and> Opaque u \<noteq> [] then
                 url1\<lparr>Opaque := Opaque u, User := None, Host := [], Path := []\<rparr>
               else setPath_ignoring (url1\<lparr>Host := Host u, User := User u\<rparr>)
                      (resolvePath (EscapedPath u) (EscapedPath ref))))"

section \<open>Resolving datasource locations\<close>

text \<open>\<open>absFileURL\<close>: \<open>resolved.Path[2]\<close> panics on a path shorter than three bytes.\<close>

definition absFileURL :: "env \<Rightarrow> string \<Rightarrow> error + url" where
  "absFileURL e value =
     (case Getwd e of
        None \<Rightarrow> Inl CantGetWorkingDirectory
      | Some wd0 \<Rightarrow>
          (let wd = ToSlash e wd0;
               baseURL = emptyURL\<lparr>Scheme := ''file'', Path := wd @ ''/''\<rparr>
           in case url_Parse e value of
                Inl err \<Rightarrow> Inl (CantParseValue value err)
              | Inr relURL \<Rightarrow>
                  (let resolved = ResolveReference baseURL relURL
                   in if \<not> HasPrefix wd ''/'' then
                        (if length (Path resolved) \<le> 2 then Inl IndexOutOfRange
                         else if Path resolved ! 2 = CHR '':''
                         then Inr (resolved\<lparr>Path := drop 1 (Path resolved)\<rparr>)
                         else Inr resolved)
                      else Inr resolved)))"

definition parseSourceURL :: "env \<Rightarrow> string \<Rightarrow> error + url" where
  "parseSourceURL e value0 =
     (let value1 = (if value0 = ''-'' then ''stdin://'' else value0);
          value2 = ToSlash e value1;
          volName = VolumeName e value2;
          value = (if volName \<noteq> [] then
                     (if length volName > 2 then ''file:'' @ value2 else ''file:///'' @ value2)
                   else value2)
      in case url_Parse e value of
           Inl err \<Rightarrow> Inl err
         | Inr srcURL0 \<Rightarrow>
             (let srcURL = (if volName \<noteq> [] \<and> length (Path srcURL0) \<ge> 3 \<and>
                               Path srcURL0 ! 0 = CHR ''/'' \<and> Path srcURL0 ! 2 = CHR '':''
                            then srcURL0\<lparr>Path := drop 1 (Path srcURL0)\<rparr> else srcURL0)
              in if \<not> IsAbs srcURL then absFileURL e value else Inr srcURL))"

section \<open>Relative paths\<close>

text \<open>
  The two conditions under which a relative path resolves to the working directory
  followed by the path itself. The text of the path must reach \<open>url.Parse\<close> as a plain
  path: no control byte, no \<open>?\<close>, \<open>#\<close> or \<open>%\<close>, no colon in the first segment, and
  no leading slash. And no segment may be \<open>.\<close> or \<open>..\<close>.
\<close>

definition plainRelativePath :: "string \<Rightarrow> bool" where
  "plainRelativePath p =
     (\<not> stringContainsCTLByte p \<and> CHR ''?'' \<notin> set p \<and> CHR ''#'' \<notin> set p \<and>
      CHR ''%'' \<notin> set p \<and> CHR '':'' \<notin> set (firstSegment p) \<and> \<not> HasPrefix p ''/'')"

text \<open>
  A working directory in slash form is rooted when it starts with a slash or, as on
  Windows, with a drive letter and a colon.
\<close>

definition rootedDir :: "string \<Rightarrow> bool" where
  "rootedDir wd = (HasPrefix wd ''/'' \<or> (length wd \<ge> 2 \<and> wd ! 1 = CHR '':''))"

definition noDotSegments :: "string \<Rightarrow> bool" where
  "noDotSegments p =
     (''.'' \<notin> set (Split (CHR ''/'') p) \<and> ''..'' \<notin> set (Split (CHR ''/'') p))"

section \<open>Command-line flags\<close>

text \<open>
  \<open>parseDatasourceArg\<close>: the key and the descriptor, or the error. The descriptor of a
  flag has no headers (a nil \<open>Header\<close>).
\<close>

definition parseDatasourceArg :: "env \<Rightarrow> string \<Rightarrow> error + (string \<times> DSConfig)" where
  "parseDatasourceArg e value =
     (let parts = SplitN2 value (CHR ''='')
      in if length parts = 1 then
           (let f = parts ! 0;
                key = SplitN2 value (CHR ''.'') ! 0
            in if Base f \<noteq> f then Inl (InvalidDatasource value)
               else (case absFileURL e f of
                       Inl err \<Rightarrow> Inl err
                     | Inr u \<Rightarrow> Inr (key, \<lparr>URL = Some u, Header = None\<rparr>)))
         else
           (case parseSourceURL e (parts ! 1) of
              Inl err \<Rightarrow> Inl err
            | Inr u \<Rightarrow> Inr (parts ! 0, \<lparr>URL = Some u, Header = None\<rparr>)))"

definition splitHeader :: "env \<Rightarrow> string \<Rightarrow> error + (string \<times> string)" where
  "splitHeader e header =
     (let parts = SplitN2 header (CHR '':'')
      in if length parts \<noteq> 2 then Inl (InvalidHeaderFormat header)
         else Inr (CanonicalHeaderKey e (parts ! 0), parts ! 1))"

definition splitHeaderArg :: "env \<Rightarrow> string \<Rightarrow> error + (string \<times> string \<times> string)" where
  "splitHeaderArg e arg =
     (let parts = SplitN2 arg (CHR ''='')
      in if length parts \<noteq> 2 then Inl (InvalidHeaderOption arg)
         else (case splitHeader e (parts ! 1) of
                 Inl err \<Rightarrow> Inl err
               | Inr (name, value) \<Rightarrow> Inr (parts ! 0, name, value)))"

text \<open>
  The loop of \<open>parseHeaderArgs\<close> over the header arguments; \<open>headers\<close> starts as an
  allocated empty map, and the header set of an alias is allocated on its first use.
\<close>

fun parseHeaderArgs_loop :: "env \<Rightarrow> (string, header) gomap \<Rightarrow> string list
    \<Rightarrow> error + (string, header) gomap" where
  "parseHeaderArgs_loop e headers [] = Inr headers"
| "parseHeaderArgs_loop e headers (v # vs) =
     (case splitHeaderArg e v of
        Inl err \<Rightarrow> Inl err
      | Inr (ds, name, value) \<Rightarrow>
          (case (if lookupM headers ds = None then storeM headers ds (Some []) else Inr headers) of
             Inl err \<Rightarrow> Inl err
           | Inr headers1 \<Rightarrow>
               (let h = (case lookupM headers1 ds of Some h' \<Rightarrow> h' | None \<Rightarrow> None);
                    old = (case lookupM h name of Some xs \<Rightarrow> xs | None \<Rightarrow> [])
                in case storeM h name (old @ [TrimSpace e value]) of
                     Inl err \<Rightarrow> Inl err
                   | Inr h1 \<Rightarrow>
                       (case storeM headers1 ds h1 of
                          Inl err \<Rightarrow> Inl err
                        | Inr headers2 \<Rightarrow> parseHeaderArgs_loop e headers2 vs))))"

definition parseHeaderArgs :: "env \<Rightarrow> string list \<Rightarrow> error + (string, header) gomap" where
  "parseHeaderArgs e headerArgs = parseHeaderArgs_loop e (Some []) headerArgs"

text \<open>
  The first two loops of \<open>ParseDataSourceFlags\<close>: each argument is parsed and stored
  under its key; a nil map is allocated before the first store.
\<close>

fun parseArgs_loop :: "env \<Rightarrow> DSources \<Rightarrow> string list \<Rightarrow> error + DSources" where
  "parseArgs_loop e m [] = Inr m"
| "parseArgs_loop e m (d # rest) =
     (case parseDatasourceArg e d of
        Inl err \<Rightarrow> Inl err
      | Inr (k, ds) \<Rightarrow>
          (case storeM (if m = None then Some [] else m) k ds of
             Inl err \<Rightarrow> Inl err
           | Inr m' \<Rightarrow> parseArgs_loop e m' rest))"

definition parseFlagArgs :: "env \<Rightarrow> Config \<Rightarrow> string list \<Rightarrow> string list \<Rightarrow> error + Config" where
  "parseFlagArgs e c datasources contexts =
     (case parseArgs_loop e (DataSources c) datasources of
        Inl err \<Rightarrow> Inl err
      | Inr ds \<Rightarrow>
          (case parseArgs_loop e (Context c) contexts of
             Inl err \<Rightarrow> Inl err
           | Inr cx \<Rightarrow> Inr (c\<lparr>DataSources := ds, Context := cx\<rparr>)))"

text \<open>
  The loop \<open>for k, v := range hdrs\<close>: the state is the Config and the pending map
  \<open>hdrs\<close>. Only the key being visited is deleted, so every entry of the map is visited.
\<close>

definition attachHeader :: "DSources \<Rightarrow> (string, header) gomap \<Rightarrow> string \<Rightarrow> header
    \<Rightarrow> error + (DSources \<times> (string, header) gomap)" where
  "attachHeader m hdrs k v =
     (case lookupM m k of
        Some d \<Rightarrow>
          (case storeM m k (d\<lparr>Header := v\<rparr>) of
             Inl err \<Rightarrow> Inl err
           | Inr m' \<Rightarrow> Inr (m', deleteM hdrs k))
      | None \<Rightarrow> Inr (m, hdrs))"

fun reconcile_loop :: "Config \<Rightarrow> (string, header) gomap \<Rightarrow> (string \<times> header) list
    \<Rightarrow> error + (Config \<times> (string, header) gomap)" where
  "reconcile_loop c hdrs [] = Inr (c, hdrs)"
| "reconcile_loop c hdrs ((k, v) # rest) =
     (case attachHeader (Context c) hdrs k v of
        Inl err \<Rightarrow> Inl err
      | Inr (cx, hdrs1) \<Rightarrow>
          (case attachHeader (DataSources (c\<lparr>Context := cx\<rparr>)) hdrs1 k v of
             Inl err \<Rightarrow> Inl err
           | Inr (ds, hdrs2) \<Rightarrow> reconcile_loop (c\<lparr>Context := cx, DataSources := ds\<rparr>) hdrs2 rest))"

definition reconcileHeaders :: "Config \<Rightarrow> (string, header) gomap
    \<Rightarrow> error + (Config \<times> (string, header) gomap)" where
  "reconcileHeaders c hdrs = reconcile_loop c hdrs (rangeM hdrs)"

text \<open>\<open>Config.ParseDataSourceFlags\<close>.\<close>

definition ParseDataSourceFlags :: "env \<Rightarrow> Config \<Rightarrow> string list \<Rightarrow> string list \<Rightarrow> string list
    \<Rightarrow> error + Config" where
  "ParseDataSourceFlags e c datasources contexts headers =
     (case parseFlagArgs e c datasources contexts of
        Inl err \<Rightarrow> Inl err
      | Inr c1 \<Rightarrow>
          (case parseHeaderArgs e headers of
             Inl err \<Rightarrow> Inl err
           | Inr hdrs \<Rightarrow>
               (case reconcileHeaders c1 hdrs of
                  Inl err \<Rightarrow> Inl err
                | Inr (c2, pending) \<Rightarrow>
                    Inr (if lenM pending > 0 then c2\<lparr>ExtraHeaders := pending\<rparr> else c2))))"

text \<open>\<open>Config.ParsePluginFlags\<close>: a nil \<open>Plugins\<close> map is allocated before the first store.\<close>

fun ParsePluginFlags_loop :: "(string, string) gomap \<Rightarrow> string list
    \<Rightarrow> error + (string, string) gomap" where
  "ParsePluginFlags_loop m [] = Inr m"
| "ParsePluginFlags_loop m (plugin # rest) =
     (let parts = SplitN2 plugin (CHR ''='')
      in if length parts < 2 then Inl PluginNeedsNameAndPath
         else (case storeM (if m = None then Some [] else m) (parts ! 0) (parts ! 1) of
                 Inl err \<Rightarrow> Inl err
               | Inr m' \<Rightarrow> ParsePluginFlags_loop m' rest))"

definition ParsePluginFlags :: "Config \<Rightarrow> string list \<Rightarrow> error + Config" where
  "ParsePluginFlags c plugins =
     (case ParsePluginFlags_loop (Plugins c) plugins of
        Inl err \<Rightarrow> Inl err
      | Inr m \<Rightarrow> Inr (c\<lparr>Plugins := m\<rparr>))"

section \<open>Properties\<close>

lemma rangeM_Nil_iff: "rangeM m = [] \<longleftrightarrow> m = None \<or> m = Some []"
  by (cases m) (auto simp: rangeM_def, (case_tac a; simp)+)

subsection \<open>Merging\<close>

lemma DSources_mergeFrom_loop_Some:
  "\<exists>al'. DSources_mergeFrom_loop (Some al) es = Inr (Some al')"
  by (induction es arbitrary: al) (auto simp: storeM_def)


lemma DSources_mergeFrom_storable:
  "storable d o' \<Longrightarrow> \<exists>d'. DSources_mergeFrom d o' = Inr d'"
  using DSources_mergeFrom_loop_Some
  by (cases d) (auto simp: storable_def DSources_mergeFrom_def)


lemma mergePlugins_loop_Some:
  "mergePlugins_loop (Some al) es = Inr (Some (fold (\<lambda>(k, v) al'. AList.update k v al') es al))"
  by (induction es arbitrary: al) (auto simp: storeM_def)



lemma map_of_rangeM: "map_of (rangeM m) k = lookupM m k"
  by (cases m) (simp_all add: rangeM_def lookupM_def map_of_clearjunk)

lemma distinct_rangeM: "distinct (map fst (rangeM m))"
  by (cases m) (simp_all add: rangeM_def)

lemma mergeInputs_maps:
  "DataSources (mergeInputs c o') = DataSources c" "Context (mergeInputs c o') = Context c"
  "Plugins (mergeInputs c o') = Plugins c"
  by (simp_all add: mergeInputs_def)

lemma mergeOutputs_maps:
  "DataSources (mergeOutputs c o') = DataSources c" "Context (mergeOutputs c o') = Context c"
  "Plugins (mergeOutputs c o') = Plugins c"
  by (simp_all add: mergeOutputs_def Let_def)

lemma mergeScalars_maps:
  "DataSources (mergeScalars c o') = DataSources c" "Context (mergeScalars c o') = Context c"
  "Plugins (mergeScalars c o') = Plugins c" "OutputDir (mergeScalars c o') = OutputDir c"
  by (simp_all add: mergeScalars_def Let_def)

text \<open>
  C1: merging any Config with the zero Config returns the receiver with every field as
  it was.
\<close>

theorem MergeFrom_empty_override: "MergeFrom c emptyConfig = Inr c"
  by (simp add: MergeFrom_def emptyConfig_def mergeInputs_def mergeOutputs_def
      mergeScalars_def DSources_mergeFrom_def rangeM_def lenM_def)

text \<open>
  The same holds for any override whose merged fields are all zero, also when its maps
  are allocated but empty.
\<close>

lemma MergeFrom_zero_override:
  assumes "Input o' = []" "InputDir o' = []" "InputFiles o' = []"
    and "OutputMap o' = []" "OutputDir o' = []" "OutputFiles o' = []" "\<not> ExecPipe o'"
    and "ExcludeGlob o' = []" "OutMode o' = []" "LDelim o' = []" "RDelim o' = []" "Templates o' = []"
    and "rangeM (DataSources o') = []" "rangeM (Context o') = []" "rangeM (Plugins o') = []"
  shows "MergeFrom c o' = Inr c"
  using assms
  by (simp add: MergeFrom_def mergeInputs_def mergeOutputs_def mergeScalars_def
      DSources_mergeFrom_def lenM_def)



lemma sentinel_iff: "(length xs = 1 \<and> xs ! 0 = y) \<longleftrightarrow> xs = [y]"
  by (cases xs) auto

lemma mergeInputs_OutputDir:
  "OutputDir (mergeInputs c o') =
     (if Input o' \<noteq> [] \<or> (InputDir o' = [] \<and> InputFiles o' \<noteq> [] \<and> InputFiles o' \<noteq> [''-''])
      then [] else OutputDir c)"
  by (simp add: mergeInputs_def sentinel_iff del: One_nat_def)

lemma mergeOutputs_OutputDir:
  "OutputDir o' = [] \<Longrightarrow> OutputFiles o' = [] \<Longrightarrow> OutputMap o' = [] \<Longrightarrow> \<not> ExecPipe o' \<Longrightarrow>
   mergeOutputs c o' = c"
  by (simp add: mergeOutputs_def)

lemma MergeFrom_storable:
  assumes "storable (DataSources c) (DataSources o')" "storable (Context c) (Context o')"
    "storable (Plugins c) (Plugins o')"
  shows "\<exists>ds cx p. DSources_mergeFrom (DataSources c) (DataSources o') = Inr ds \<and>
     DSources_mergeFrom (Context c) (Context o') = Inr cx \<and>
     (if lenM (Plugins o') > 0 then mergePlugins_loop (Plugins c) (rangeM (Plugins o'))  else Inr (Plugins c)) = Inr p \<and>
     MergeFrom c o' = Inr ((mergeScalars (mergeOutputs (mergeInputs c o') o') o')\<lparr>DataSources := ds, Context := cx, Plugins := p\<rparr>)"
proof -
  obtain ds where ds: "DSources_mergeFrom (DataSources c) (DataSources o') = Inr ds"
    using DSources_mergeFrom_storable [OF assms(1)] by blast
  obtain cx where cx: "DSources_mergeFrom (Context c) (Context o') = Inr cx"
    using DSources_mergeFrom_storable [OF assms(2)] by blast
  have "\<exists>p. (if lenM (Plugins o') > 0 then mergePlugins_loop (Plugins c) (rangeM (Plugins o')) else Inr (Plugins c)) = Inr p"
    using assms(3) by (cases "Plugins c") (auto simp: storable_def lenM_def mergePlugins_loop_Some)
  then obtain p where p: "(if lenM (Plugins o') > 0 then mergePlugins_loop (Plugins c) (rangeM (Plugins o')) else Inr (Plugins c)) = Inr p"
    by blast
  show ?thesis
    using ds cx p
    by (auto simp: MergeFrom_def Let_def mergeInputs_maps mergeOutputs_maps mergeScalars_maps split: if_splits)
qed

text \<open>
  C4 (as amended): let the override have zero \<open>OutputDir\<close>, \<open>OutputFiles\<close>, \<open>OutputMap\<close>
  and \<open>ExecPipe\<close>, and let the merge complete (nothing is stored into a nil
  \<open>DataSources\<close>, \<open>Context\<close> or \<open>Plugins\<close> map of the receiver). Then the receiver's
  \<open>OutputDir\<close> is cleared when the override's \<open>Input\<close> is set, or when its
  \<open>InputFiles\<close> is the field that overrides (non-empty, not \<open>["-"]\<close>, with \<open>Input\<close> and
  \<open>InputDir\<close> empty); in every other case it is unchanged.
\<close>

theorem MergeFrom_OutputDir:
  assumes "OutputDir o' = []" "OutputFiles o' = []" "OutputMap o' = []" "\<not> ExecPipe o'"
    and "storable (DataSources c) (DataSources o')" "storable (Context c) (Context o')"
    "storable (Plugins c) (Plugins o')"
  shows "\<exists>c'. MergeFrom c o' = Inr c' \<and>
     OutputDir c' =
       (if Input o' \<noteq> [] \<or> (InputDir o' = [] \<and> InputFiles o' \<noteq> [] \<and> InputFiles o' \<noteq> [''-''])
        then [] else OutputDir c)"
  using MergeFrom_storable [OF assms(5,6,7)]
  by (auto simp: mergeScalars_maps mergeOutputs_OutputDir [OF assms(1-4)] mergeInputs_OutputDir
      simp del: One_nat_def)


theorem MergeFrom_OutputDir_witness:
  "OutputDir (emptyConfig\<lparr>InputDir := ''tmpl''\<rparr>) = [] \<and>
   OutputFiles (emptyConfig\<lparr>InputDir := ''tmpl''\<rparr>) = [] \<and>
   OutputMap (emptyConfig\<lparr>InputDir := ''tmpl''\<rparr>) = [] \<and>
   \<not> ExecPipe (emptyConfig\<lparr>InputDir := ''tmpl''\<rparr>) \<and>
   storable (DataSources (emptyConfig\<lparr>InputDir := ''in'', OutputDir := ''out''\<rparr>))
     (DataSources (emptyConfig\<lparr>InputDir := ''tmpl''\<rparr>)) \<and>
   storable (Context (emptyConfig\<lparr>InputDir := ''in'', OutputDir := ''out''\<rparr>))
     (Context (emptyConfig\<lparr>InputDir := ''tmpl''\<rparr>)) \<and>
   storable (Plugins (emptyConfig\<lparr>InputDir := ''in'', OutputDir := ''out''\<rparr>))
     (Plugins (emptyConfig\<lparr>InputDir := ''tmpl''\<rparr>)) \<and>
   (\<exists>c'. MergeFrom (emptyConfig\<lparr>InputDir := ''in'', OutputDir := ''out''\<rparr>)
            (emptyConfig\<lparr>InputDir := ''tmpl''\<rparr>) = Inr c' \<and> OutputDir c' = ''out'') \<and>
   OutputDir (emptyConfig\<lparr>InputFiles := [''a.tmpl'']\<rparr>) = [] \<and>
   OutputFiles (emptyConfig\<lparr>InputFiles := [''a.tmpl'']\<rparr>) = [] \<and>
   OutputMap (emptyConfig\<lparr>InputFiles := [''a.tmpl'']\<rparr>) = [] \<and>
   \<not> ExecPipe (emptyConfig\<lparr>InputFiles := [''a.tmpl'']\<rparr>) \<and>
   (\<exists>c'. MergeFrom (emptyConfig\<lparr>InputDir := ''in'', OutputDir := ''out''\<rparr>)
            (emptyConfig\<lparr>InputFiles := [''a.tmpl'']\<rparr>) = Inr c' \<and> OutputDir c' = [])"
  using MergeFrom_OutputDir [of "emptyConfig\<lparr>InputDir := ''tmpl''\<rparr>"
      "emptyConfig\<lparr>InputDir := ''in'', OutputDir := ''out''\<rparr>"]
    MergeFrom_OutputDir [of "emptyConfig\<lparr>InputFiles := [''a.tmpl'']\<rparr>"
      "emptyConfig\<lparr>InputDir := ''in'', OutputDir := ''out''\<rparr>"]
  by (simp add: emptyConfig_def storable_def rangeM_def)

text \<open>
  The claim as first stated fails: an override that sets only \<open>Input\<close> clears the
  receiver's \<open>OutputDir\<close>.
\<close>

theorem MergeFrom_OutputDir_counterexample:
  "OutputDir (emptyConfig\<lparr>Input := ''hello''\<rparr>) = [] \<and>
   OutputFiles (emptyConfig\<lparr>Input := ''hello''\<rparr>) = [] \<and>
   OutputMap (emptyConfig\<lparr>Input := ''hello''\<rparr>) = [] \<and>
   \<not> ExecPipe (emptyConfig\<lparr>Input := ''hello''\<rparr>) \<and>
   OutputDir (emptyConfig\<lparr>InputDir := ''in'', OutputDir := ''out''\<rparr>) = ''out'' \<and>
   map_sum id OutputDir
     (MergeFrom (emptyConfig\<lparr>InputDir := ''in'', OutputDir := ''out''\<rparr>)
        (emptyConfig\<lparr>Input := ''hello''\<rparr>)) = Inr []"
  by (simp add: emptyConfig_def MergeFrom_def mergeInputs_def mergeOutputs_def
      mergeScalars_def DSources_mergeFrom_def rangeM_def lenM_def)





subsection \<open>Validation of the counts\<close>

lemma notTogether3:
  "n1 \<noteq> [] \<Longrightarrow> n2 \<noteq> [] \<Longrightarrow>
   notTogether [n1, n2, n3] [a, b, c] = None \<longleftrightarrow>
     (isZero a \<and> isZero b) \<or> (isZero a \<and> isZero c) \<or> (isZero b \<and> isZero c)"
  by (auto simp: notTogether_def)

lemma orElse_None: "orElse a b = None \<longleftrightarrow> a = None \<and> b = None"
  by (cases a) (simp_all add: orElse_def)

lemma Validate_None_iff:
  "Validate c = None \<longleftrightarrow>
     ((Input c = [] \<and> InputFiles c = []) \<or> (Input c = [] \<and> InputDir c = []) \<or>
      (InputFiles c = [] \<and> InputDir c = [])) \<and>
     ((OutputFiles c = [] \<and> OutputDir c = []) \<or> (OutputFiles c = [] \<and> OutputMap c = []) \<or>
      (OutputDir c = [] \<and> OutputMap c = [])) \<and>
     ((OutputDir c = [] \<and> OutputMap c = []) \<or> (OutputDir c = [] \<and> \<not> ExecPipe c) \<or>
      (OutputMap c = [] \<and> \<not> ExecPipe c)) \<and>
     mustTogether ''outputDir'' ''inputDir'' (VString (OutputDir c)) (VString (InputDir c)) = None \<and>
     mustTogether ''outputMap'' ''inputDir'' (VString (OutputMap c)) (VString (InputDir c)) = None \<and>
     checkCounts c = None \<and> checkPostExec c = None \<and> checkPipeOutput c = None"
  by (simp add: Validate_def orElse_None notTogether3)

text \<open>
  C6 (as amended): a Config with two \<open>InputFiles\<close> and one \<open>OutputFiles\<close> entry is
  rejected when \<open>ExecPipe\<close> is false. When \<open>ExecPipe\<close> is true the count check is
  skipped, and the Config is accepted exactly when the other checks hold: \<open>Input\<close>,
  \<open>InputDir\<close>, \<open>OutputDir\<close> and \<open>OutputMap\<close> are empty, \<open>PostExec\<close> is not, and the
  one output is \<open>"-"\<close>.
\<close>

theorem Validate_two_inputs_one_output:
  "length (InputFiles c) = 2 \<and> length (OutputFiles c) = 1 \<longrightarrow>
     (\<not> ExecPipe c \<longrightarrow> Validate c \<noteq> None) \<and>
     (ExecPipe c \<longrightarrow>
        (Validate c = None \<longleftrightarrow>
           Input c = [] \<and> InputDir c = [] \<and> OutputDir c = [] \<and> OutputMap c = [] \<and>
           PostExec c \<noteq> [] \<and> OutputFiles c = [''-'']))"
proof (intro impI conjI)
  assume l: "length (InputFiles c) = 2 \<and> length (OutputFiles c) = 1"
  then have ne: "InputFiles c \<noteq> []" "OutputFiles c \<noteq> []" by auto
  { assume "\<not> ExecPipe c"
    then have "checkCounts c \<noteq> None"
      using l by (simp add: checkCounts_def)
    then show "Validate c \<noteq> None"
      by (simp add: Validate_None_iff)
  }
  { assume e: "ExecPipe c"
    from l obtain y where y: "OutputFiles c = [y]"
      by (cases "OutputFiles c") auto
    have 1: "checkCounts c = None" using e by (simp add: checkCounts_def)
    have 2: "checkPostExec c = None \<longleftrightarrow> PostExec c \<noteq> []" using e by (simp add: checkPostExec_def)
    have 3: "checkPipeOutput c = None \<longleftrightarrow> OutputFiles c = [''-'']"
      using e y by (simp add: checkPipeOutput_def)
    show "Validate c = None \<longleftrightarrow>
           Input c = [] \<and> InputDir c = [] \<and> OutputDir c = [] \<and> OutputMap c = [] \<and>
           PostExec c \<noteq> [] \<and> OutputFiles c = [''-'']"
      unfolding Validate_None_iff 1 2 3 using e ne
      by (auto simp: mustTogether_def)
  }
qed

theorem Validate_two_inputs_one_output_witness:
  "length (InputFiles (emptyConfig\<lparr>InputFiles := [''a'', ''b''], OutputFiles := [''out'']\<rparr>)) = 2 \<and>
   length (OutputFiles (emptyConfig\<lparr>InputFiles := [''a'', ''b''], OutputFiles := [''out'']\<rparr>)) = 1 \<and>
   \<not> ExecPipe (emptyConfig\<lparr>InputFiles := [''a'', ''b''], OutputFiles := [''out'']\<rparr>) \<and>
   Validate (emptyConfig\<lparr>InputFiles := [''a'', ''b''], OutputFiles := [''out'']\<rparr>) \<noteq> None \<and>
   length (InputFiles (emptyConfig\<lparr>InputFiles := [''a'', ''b''], OutputFiles := [''-''],
      ExecPipe := True, PostExec := [''cat'']\<rparr>)) = 2 \<and>
   length (OutputFiles (emptyConfig\<lparr>InputFiles := [''a'', ''b''], OutputFiles := [''-''],
      ExecPipe := True, PostExec := [''cat'']\<rparr>)) = 1 \<and>
   ExecPipe (emptyConfig\<lparr>InputFiles := [''a'', ''b''], OutputFiles := [''-''],
      ExecPipe := True, PostExec := [''cat'']\<rparr>) \<and>
   Validate (emptyConfig\<lparr>InputFiles := [''a'', ''b''], OutputFiles := [''-''],
      ExecPipe := True, PostExec := [''cat'']\<rparr>) = None"
  using Validate_two_inputs_one_output [of "emptyConfig\<lparr>InputFiles := [''a'', ''b''], OutputFiles := [''out'']\<rparr>"]
    Validate_two_inputs_one_output [of "emptyConfig\<lparr>InputFiles := [''a'', ''b''], OutputFiles := [''-''],
      ExecPipe := True, PostExec := [''cat'']\<rparr>"]
  by (simp add: emptyConfig_def)

text \<open>
  With \<open>ExecPipe\<close> and a \<open>PostExec\<close> command, two inputs and the one output \<open>"out"\<close>
  are still rejected, by the last check.
\<close>

theorem Validate_two_inputs_one_output_counterexample:
  "length (InputFiles (emptyConfig\<lparr>InputFiles := [''a'', ''b''], OutputFiles := [''out''],
      ExecPipe := True, PostExec := [''cat'']\<rparr>)) = 2 \<and>
   length (OutputFiles (emptyConfig\<lparr>InputFiles := [''a'', ''b''], OutputFiles := [''out''],
      ExecPipe := True, PostExec := [''cat'']\<rparr>)) = 1 \<and>
   ExecPipe (emptyConfig\<lparr>InputFiles := [''a'', ''b''], OutputFiles := [''out''],
      ExecPipe := True, PostExec := [''cat'']\<rparr>) \<and>
   Validate (emptyConfig\<lparr>InputFiles := [''a'', ''b''], OutputFiles := [''out''],
      ExecPipe := True, PostExec := [''cat'']\<rparr>) = Some OutputFilesWithExecPipe"
  by (simp add: Validate_def emptyConfig_def notTogether_def mustTogether_def orElse_def
      checkCounts_def checkPostExec_def checkPipeOutput_def)

subsection \<open>Defaults\<close>

lemma defaultOutputDir_upd:
  "defaultOutputDir c = c\<lparr>OutputDir := (if InputDir c \<noteq> [] \<and> OutputDir c = [] \<and> OutputMap c = [] then ''.'' else OutputDir c)\<rparr>"
  by (simp add: defaultOutputDir_def)

lemma defaultInputFiles_upd:
  "defaultInputFiles c = c\<lparr>InputFiles := (if Input c = [] \<and> InputDir c = [] \<and> InputFiles c = [] then [''-''] else InputFiles c)\<rparr>"
  by (simp add: defaultInputFiles_def)

lemma defaultOutputFiles_upd:
  "defaultOutputFiles c = c\<lparr>OutputFiles := (if OutputDir c = [] \<and> OutputMap c = [] \<and> OutputFiles c = [] \<and> \<not> ExecPipe c then [''-''] else OutputFiles c)\<rparr>"
  by (simp add: defaultOutputFiles_def)

lemma defaultLDelim_upd: "defaultLDelim c = c\<lparr>LDelim := (if LDelim c = [] then ''{{'' else LDelim c)\<rparr>"
  by (simp add: defaultLDelim_def)

lemma defaultRDelim_upd: "defaultRDelim c = c\<lparr>RDelim := (if RDelim c = [] then ''}}'' else RDelim c)\<rparr>"
  by (simp add: defaultRDelim_def)

lemma wireStreams_upd:
  "wireStreams c = c\<lparr>PostExecInput := (if ExecPipe c then NewBuffer else OsStdin),
     OutWriter := (if ExecPipe c then NewBuffer else OsStdout),
     OutputFiles := (if ExecPipe c then [''-''] else OutputFiles c)\<rparr>"
  by (simp add: wireStreams_def)

lemma defaultPluginTimeout_upd:
  "defaultPluginTimeout c = c\<lparr>PluginTimeout := (if PluginTimeout c = 0 then 5 * 1000000000 else PluginTimeout c)\<rparr>"
  by (simp add: defaultPluginTimeout_def)

lemmas ApplyDefaults_upd = ApplyDefaults_def defaultOutputDir_upd defaultInputFiles_upd
  defaultOutputFiles_upd defaultLDelim_upd defaultRDelim_upd wireStreams_upd defaultPluginTimeout_upd

lemma ApplyDefaults_kept:
  "Input (ApplyDefaults c) = Input c" "InputDir (ApplyDefaults c) = InputDir c"
  "OutputMap (ApplyDefaults c) = OutputMap c" "ExecPipe (ApplyDefaults c) = ExecPipe c"
  unfolding ApplyDefaults_upd by simp_all

lemma ApplyDefaults_OutputDir:
  "OutputDir (ApplyDefaults c) =
     (if InputDir c \<noteq> [] \<and> OutputDir c = [] \<and> OutputMap c = [] then ''.'' else OutputDir c)"
  unfolding ApplyDefaults_upd by simp

lemma ApplyDefaults_InputFiles:
  "InputFiles (ApplyDefaults c) =
     (if Input c = [] \<and> InputDir c = [] \<and> InputFiles c = [] then [''-''] else InputFiles c)"
  unfolding ApplyDefaults_upd by simp

lemma ApplyDefaults_OutputFiles:
  "OutputFiles (ApplyDefaults c) =
     (if ExecPipe c then [''-'']
      else if OutputDir (ApplyDefaults c) = [] \<and> OutputMap c = [] \<and> OutputFiles c = [] then [''-'']
      else OutputFiles c)"
  unfolding ApplyDefaults_upd by simp

lemma ApplyDefaults_delims:
  "LDelim (ApplyDefaults c) = (if LDelim c = [] then ''{{'' else LDelim c)"
  "RDelim (ApplyDefaults c) = (if RDelim c = [] then ''}}'' else RDelim c)"
  unfolding ApplyDefaults_upd by simp_all

lemma ApplyDefaults_streams:
  "PostExecInput (ApplyDefaults c) = (if ExecPipe c then NewBuffer else OsStdin)"
  "OutWriter (ApplyDefaults c) = (if ExecPipe c then NewBuffer else OsStdout)"
  unfolding ApplyDefaults_upd by simp_all

lemma ApplyDefaults_PluginTimeout:
  "PluginTimeout (ApplyDefaults c) = (if PluginTimeout c = 0 then 5 * 1000000000 else PluginTimeout c)"
  unfolding ApplyDefaults_upd by simp

lemma stream_update_same:
  "PostExecInput d = a \<Longrightarrow> OutWriter d = b \<Longrightarrow> OutputFiles d = e \<Longrightarrow>
   d\<lparr>PostExecInput := a, OutWriter := b, OutputFiles := e\<rparr> = d"
  "PostExecInput d = a \<Longrightarrow> OutWriter d = b \<Longrightarrow> d\<lparr>PostExecInput := a, OutWriter := b\<rparr> = d"
  by auto

text \<open>
  C5: applying \<open>ApplyDefaults\<close> to an already defaulted Config changes no field. The
  buffer allocated for \<open>execPipe\<close> is a fresh empty buffer both times.
\<close>

theorem ApplyDefaults_idempotent: "ApplyDefaults (ApplyDefaults c) = ApplyDefaults c"
proof -
  let ?d = "ApplyDefaults c"
  have 1: "defaultOutputDir ?d = ?d"
    by (simp add: defaultOutputDir_def ApplyDefaults_kept ApplyDefaults_OutputDir)
  have 2: "defaultInputFiles ?d = ?d"
    by (simp add: defaultInputFiles_def ApplyDefaults_kept ApplyDefaults_InputFiles)
  have 3: "defaultOutputFiles ?d = ?d"
    by (simp add: defaultOutputFiles_def ApplyDefaults_kept ApplyDefaults_OutputFiles)
  have 4: "defaultLDelim ?d = ?d"
    by (simp add: defaultLDelim_def ApplyDefaults_delims)
  have 5: "defaultRDelim ?d = ?d"
    by (simp add: defaultRDelim_def ApplyDefaults_delims)
  have 6: "wireStreams ?d = ?d"
    by (cases "ExecPipe c")
       (simp_all add: wireStreams_def ApplyDefaults_kept stream_update_same ApplyDefaults_streams ApplyDefaults_OutputFiles)
  have 7: "defaultPluginTimeout ?d = ?d"
    by (simp add: defaultPluginTimeout_def ApplyDefaults_PluginTimeout)
  show ?thesis
    by (simp add: ApplyDefaults_def [of ?d] 1 2 3 4 5 6 7)
qed


subsection \<open>Validation of the pipe output\<close>

text \<open>
  C3: the last check of \<open>Validate\<close> looks at the first element of \<open>OutputFiles\<close>
  only. With \<open>execPipe\<close> and a \<open>postExec\<close> command, the two-element list
  \<open>["-", "x"]\<close> passes every check, while \<open>["x"]\<close> is rejected.
\<close>

theorem Validate_accepts_sentinel_then_file:
  "Validate (emptyConfig\<lparr>ExecPipe := True, PostExec := [''cat''], OutputFiles := [''-'', ''x'']\<rparr>) = None"
  by (simp add: Validate_def emptyConfig_def notTogether_def mustTogether_def orElse_def
      checkCounts_def checkPostExec_def checkPipeOutput_def)

lemma Validate_rejects_single_file:
  "Validate (emptyConfig\<lparr>ExecPipe := True, PostExec := [''cat''], OutputFiles := [''x'']\<rparr>)
     = Some OutputFilesWithExecPipe"
  by (simp add: Validate_def emptyConfig_def notTogether_def mustTogether_def orElse_def
      checkCounts_def checkPostExec_def checkPipeOutput_def)

subsection \<open>File mode\<close>

text \<open>
  C8: with an empty \<open>OutMode\<close> and a non-empty inline \<open>Input\<close>, \<open>GetMode\<close> returns
  mode 0644 (420), no override, and no error.
\<close>

theorem GetMode_default:
  "OutMode c = [] \<Longrightarrow> Input c \<noteq> [] \<Longrightarrow> GetMode c = Inr (0x1A4, False)"
  by (simp add: GetMode_def ParseUint8_def digitVal_def)

theorem GetMode_default_witness:
  "OutMode (emptyConfig\<lparr>Input := ''hello''\<rparr>) = [] \<and> Input (emptyConfig\<lparr>Input := ''hello''\<rparr>) \<noteq> []
   \<and> GetMode (emptyConfig\<lparr>Input := ''hello''\<rparr>) = Inr (0x1A4, False)"
  using GetMode_default [of "emptyConfig\<lparr>Input := ''hello''\<rparr>"] by (simp add: emptyConfig_def)

subsection \<open>Header flags\<close>

lemma lookupM_deleteM: "lookupM (deleteM m k) j = (if j = k then None else lookupM m j)"
  by (cases m) (simp_all add: lookupM_def deleteM_def delete_conv')

lemma lookupM_storeM:
  "storeM m k v = Inr m' \<Longrightarrow> lookupM m' j = (if j = k then Some v else lookupM m j)"
  by (cases m) (auto simp: lookupM_def storeM_def update_conv')

lemma storeM_present: "lookupM m k = Some d \<Longrightarrow> \<exists>m'. storeM m k v = Inr m'"
  by (cases m) (simp_all add: lookupM_def storeM_def)

lemma attachHeader_spec:
  "\<exists>m'. attachHeader m hdrs k v =
          Inr (m', if lookupM m k = None then hdrs else deleteM hdrs k) \<and>
        (\<forall>j. lookupM m' j =
           (if j = k then map_option (\<lambda>d. d\<lparr>Header := v\<rparr>) (lookupM m k) else lookupM m j))"
proof (cases "lookupM m k")
  case None
  then show ?thesis by (simp add: attachHeader_def)
next
  case (Some d)
  obtain m' where m': "storeM m k (d\<lparr>Header := v\<rparr>) = Inr m'"
    using storeM_present [OF Some] by blast
  show ?thesis
    using Some m' lookupM_storeM [OF m'] by (simp add: attachHeader_def)
qed

lemma reconcile_loop_spec:
  "distinct (map fst es) \<Longrightarrow>
   \<exists>c' pending. reconcile_loop c hdrs es = Inr (c', pending) \<and>
     c' = c\<lparr>Context := Context c', DataSources := DataSources c'\<rparr> \<and>
     (\<forall>j. lookupM (DataSources c') j =
        (case map_of es j of
           Some v \<Rightarrow> map_option (\<lambda>d. d\<lparr>Header := v\<rparr>) (lookupM (DataSources c) j)
         | None \<Rightarrow> lookupM (DataSources c) j)) \<and>
     (\<forall>j. lookupM (Context c') j =
        (case map_of es j of
           Some v \<Rightarrow> map_option (\<lambda>d. d\<lparr>Header := v\<rparr>) (lookupM (Context c) j)
         | None \<Rightarrow> lookupM (Context c) j)) \<and>
     (\<forall>j. lookupM pending j =
        (if map_of es j \<noteq> None \<and> (lookupM (DataSources c) j \<noteq> None \<or> lookupM (Context c) j \<noteq> None)
         then None else lookupM hdrs j))"
proof (induction es arbitrary: c hdrs)
  case Nil
  then show ?case by simp
next
  case (Cons e es)
  obtain k v where e: "e = (k, v)" by (cases e)
  from Cons.prems have d: "distinct (map fst es)" and n: "map_of es k = None"
    by (auto simp: e map_of_eq_None_iff)
  let ?h1 = "if lookupM (Context c) k = None then hdrs else deleteM hdrs k"
  obtain cx where cx: "attachHeader (Context c) hdrs k v = Inr (cx, ?h1)"
    and cxl: "\<forall>j. lookupM cx j =
           (if j = k then map_option (\<lambda>d. d\<lparr>Header := v\<rparr>) (lookupM (Context c) k) else lookupM (Context c) j)"
    using attachHeader_spec [of "Context c" hdrs k v] by blast
  let ?h2 = "if lookupM (DataSources c) k = None then ?h1 else deleteM ?h1 k"
  obtain ds where ds: "attachHeader (DataSources c) ?h1 k v = Inr (ds, ?h2)"
    and dsl: "\<forall>j. lookupM ds j =
           (if j = k then map_option (\<lambda>d. d\<lparr>Header := v\<rparr>) (lookupM (DataSources c) k) else lookupM (DataSources c) j)"
    using attachHeader_spec [of "DataSources c" ?h1 k v] by blast
  let ?c1 = "c\<lparr>Context := cx, DataSources := ds\<rparr>"
  obtain c' pending where r: "reconcile_loop ?c1 ?h2 es = Inr (c', pending)"
    and f: "c' = ?c1\<lparr>Context := Context c', DataSources := DataSources c'\<rparr>"
    and l1: "\<forall>j. lookupM (DataSources c') j =
        (case map_of es j of
           Some v \<Rightarrow> map_option (\<lambda>d. d\<lparr>Header := v\<rparr>) (lookupM (DataSources ?c1) j)
         | None \<Rightarrow> lookupM (DataSources ?c1) j)"
    and l2: "\<forall>j. lookupM (Context c') j =
        (case map_of es j of
           Some v \<Rightarrow> map_option (\<lambda>d. d\<lparr>Header := v\<rparr>) (lookupM (Context ?c1) j)
         | None \<Rightarrow> lookupM (Context ?c1) j)"
    and l3: "\<forall>j. lookupM pending j =
        (if map_of es j \<noteq> None \<and> (lookupM (DataSources ?c1) j \<noteq> None \<or> lookupM (Context ?c1) j \<noteq> None)
         then None else lookupM ?h2 j)"
    using Cons.IH [OF d, of ?c1 ?h2] by blast
  have run: "reconcile_loop c hdrs (e # es) = Inr (c', pending)"
    using cx ds r by (simp add: e)
  have f': "c' = c\<lparr>Context := Context c', DataSources := DataSources c'\<rparr>"
    using f by simp
  have g1: "\<forall>j. lookupM (DataSources c') j =
        (case map_of (e # es) j of
           Some v \<Rightarrow> map_option (\<lambda>d. d\<lparr>Header := v\<rparr>) (lookupM (DataSources c) j)
         | None \<Rightarrow> lookupM (DataSources c) j)"
    using l1 dsl n by (auto simp: e split: option.splits)
  have g2: "\<forall>j. lookupM (Context c') j =
        (case map_of (e # es) j of
           Some v \<Rightarrow> map_option (\<lambda>d. d\<lparr>Header := v\<rparr>) (lookupM (Context c) j)
         | None \<Rightarrow> lookupM (Context c) j)"
    using l2 cxl n by (auto simp: e split: option.splits)
  have g3: "\<forall>j. lookupM pending j =
        (if map_of (e # es) j \<noteq> None \<and> (lookupM (DataSources c) j \<noteq> None \<or> lookupM (Context c) j \<noteq> None)
         then None else lookupM hdrs j)"
    using l3 dsl cxl n by (auto simp: e lookupM_deleteM split: option.splits)
  show ?case using run f' g1 g2 g3 by blast
qed

lemma parseFlagArgs_ExtraHeaders:
  "parseFlagArgs e c dss ctxs = Inr c1 \<Longrightarrow> ExtraHeaders c1 = ExtraHeaders c"
  by (auto simp: parseFlagArgs_def split: sum.splits)

lemma reconcileHeaders_spec:
  "\<exists>c2 pending. reconcileHeaders c1 hdrs = Inr (c2, pending) \<and>
     ExtraHeaders c2 = ExtraHeaders c1 \<and>
     (\<forall>j. lookupM (DataSources c2) j =
        (case lookupM hdrs j of
           Some v \<Rightarrow> map_option (\<lambda>d. d\<lparr>Header := v\<rparr>) (lookupM (DataSources c1) j)
         | None \<Rightarrow> lookupM (DataSources c1) j)) \<and>
     (\<forall>j. lookupM (Context c2) j =
        (case lookupM hdrs j of
           Some v \<Rightarrow> map_option (\<lambda>d. d\<lparr>Header := v\<rparr>) (lookupM (Context c1) j)
         | None \<Rightarrow> lookupM (Context c1) j)) \<and>
     (\<forall>j. lookupM pending j =
        (if lookupM hdrs j \<noteq> None \<and> (lookupM (DataSources c1) j \<noteq> None \<or> lookupM (Context c1) j \<noteq> None)
         then None else lookupM hdrs j))"
proof -
  obtain c2 pending where r: "reconcile_loop c1 hdrs (rangeM hdrs) = Inr (c2, pending)"
    and f: "c2 = c1\<lparr>Context := Context c2, DataSources := DataSources c2\<rparr>"
    and rest: "(\<forall>j. lookupM (DataSources c2) j =
        (case map_of (rangeM hdrs) j of
           Some v \<Rightarrow> map_option (\<lambda>d. d\<lparr>Header := v\<rparr>) (lookupM (DataSources c1) j)
         | None \<Rightarrow> lookupM (DataSources c1) j))"
     "(\<forall>j. lookupM (Context c2) j =
        (case map_of (rangeM hdrs) j of
           Some v \<Rightarrow> map_option (\<lambda>d. d\<lparr>Header := v\<rparr>) (lookupM (Context c1) j)
         | None \<Rightarrow> lookupM (Context c1) j))"
     "(\<forall>j. lookupM pending j =
        (if map_of (rangeM hdrs) j \<noteq> None \<and> (lookupM (DataSources c1) j \<noteq> None \<or> lookupM (Context c1) j \<noteq> None)
         then None else lookupM hdrs j))"
    using reconcile_loop_spec [where es = "rangeM hdrs" and c = c1 and hdrs = hdrs, OF distinct_rangeM]
    by blast
  have "ExtraHeaders c2 = ExtraHeaders c1"
    by (subst f) simp
  then show ?thesis
    using r rest unfolding map_of_rangeM reconcileHeaders_def by blast
qed

lemma ParseDataSourceFlags_spec:
  assumes "parseFlagArgs e c dss ctxs = Inr c1"
    and "parseHeaderArgs e hs = Inr hdrs"
  shows "\<exists>c2 pending c'.
      reconcileHeaders c1 hdrs = Inr (c2, pending) \<and>
      ParseDataSourceFlags e c dss ctxs hs = Inr c' \<and>
      (\<forall>j. lookupM (DataSources c') j =
        (case lookupM hdrs j of
           Some v \<Rightarrow> map_option (\<lambda>d. d\<lparr>Header := v\<rparr>) (lookupM (DataSources c1) j)
         | None \<Rightarrow> lookupM (DataSources c1) j)) \<and>
      (\<forall>j. lookupM (Context c') j =
        (case lookupM hdrs j of
           Some v \<Rightarrow> map_option (\<lambda>d. d\<lparr>Header := v\<rparr>) (lookupM (Context c1) j)
         | None \<Rightarrow> lookupM (Context c1) j)) \<and>
      (\<forall>j. lookupM pending j =
        (if lookupM hdrs j \<noteq> None \<and> (lookupM (DataSources c1) j \<noteq> None \<or> lookupM (Context c1) j \<noteq> None)
         then None else lookupM hdrs j)) \<and>
      ExtraHeaders c' = (if lenM pending > 0 then pending else ExtraHeaders c)"
proof -
  obtain c2 pending where r: "reconcileHeaders c1 hdrs = Inr (c2, pending)"
    and x: "ExtraHeaders c2 = ExtraHeaders c1"
    and l1: "\<forall>j. lookupM (DataSources c2) j =
        (case lookupM hdrs j of
           Some v \<Rightarrow> map_option (\<lambda>d. d\<lparr>Header := v\<rparr>) (lookupM (DataSources c1) j)
         | None \<Rightarrow> lookupM (DataSources c1) j)"
    and l2: "\<forall>j. lookupM (Context c2) j =
        (case lookupM hdrs j of
           Some v \<Rightarrow> map_option (\<lambda>d. d\<lparr>Header := v\<rparr>) (lookupM (Context c1) j)
         | None \<Rightarrow> lookupM (Context c1) j)"
    and l3: "\<forall>j. lookupM pending j =
        (if lookupM hdrs j \<noteq> None \<and> (lookupM (DataSources c1) j \<noteq> None \<or> lookupM (Context c1) j \<noteq> None)
         then None else lookupM hdrs j)"
    using reconcileHeaders_spec [of c1 hdrs] by blast
  let ?c' = "if lenM pending > 0 then c2\<lparr>ExtraHeaders := pending\<rparr> else c2"
  have p: "ParseDataSourceFlags e c dss ctxs hs = Inr ?c'"
    using assms r by (simp add: ParseDataSourceFlags_def)
  have d: "DataSources ?c' = DataSources c2" "Context ?c' = Context c2"
    by simp_all
  have xh: "ExtraHeaders ?c' = (if lenM pending > 0 then pending else ExtraHeaders c)"
    using x parseFlagArgs_ExtraHeaders [OF assms(1)] by simp
  show ?thesis
    using r p l1 l2 l3 xh unfolding d [symmetric] by blast
qed

lemma parseHeaderArgs_sample:
  "parseHeaderArgs sampleEnv [''foo=X-Api-Key: abc123''] =
     Inr (Some [(''foo'', Some [(''X-Api-Key'', [''abc123''])])])"
  by code_simp

lemma parseFlagArgs_no_flags: "parseFlagArgs e c [] [] = Inr c"
  by (simp add: parseFlagArgs_def)

text \<open>
  C2 (as amended): let the two flag loops and the header parser succeed, and let the
  alias \<open>k\<close> of a parsed header set \<open>v\<close> match a descriptor in \<open>DataSources\<close> or in
  \<open>Context\<close>. Then \<open>ParseDataSourceFlags\<close> returns, the \<open>Header\<close> of every matching
  descriptor is \<open>v\<close> itself (it replaces the headers the descriptor had), the alias is
  gone from the pending map, and \<open>ExtraHeaders\<close> is the pending map when that is not
  empty and is left as it was otherwise.
\<close>

theorem ParseDataSourceFlags_attaches_headers:
  assumes "parseFlagArgs e c dss ctxs = Inr c1"
    and "parseHeaderArgs e hs = Inr hdrs"
    and "lookupM hdrs k = Some v"
    and "lookupM (DataSources c1) k \<noteq> None \<or> lookupM (Context c1) k \<noteq> None"
  shows "\<exists>c2 pending c'.
      reconcileHeaders c1 hdrs = Inr (c2, pending) \<and>
      ParseDataSourceFlags e c dss ctxs hs = Inr c' \<and>
      lookupM (DataSources c') k = map_option (\<lambda>d. d\<lparr>Header := v\<rparr>) (lookupM (DataSources c1) k) \<and>
      lookupM (Context c') k = map_option (\<lambda>d. d\<lparr>Header := v\<rparr>) (lookupM (Context c1) k) \<and>
      lookupM pending k = None \<and>
      ExtraHeaders c' = (if lenM pending > 0 then pending else ExtraHeaders c)"
proof -
  obtain c2 pending c' where r: "reconcileHeaders c1 hdrs = Inr (c2, pending)"
    and p: "ParseDataSourceFlags e c dss ctxs hs = Inr c'"
    and l1: "\<forall>j. lookupM (DataSources c') j =
        (case lookupM hdrs j of
           Some v \<Rightarrow> map_option (\<lambda>d. d\<lparr>Header := v\<rparr>) (lookupM (DataSources c1) j)
         | None \<Rightarrow> lookupM (DataSources c1) j)"
    and l2: "\<forall>j. lookupM (Context c') j =
        (case lookupM hdrs j of
           Some v \<Rightarrow> map_option (\<lambda>d. d\<lparr>Header := v\<rparr>) (lookupM (Context c1) j)
         | None \<Rightarrow> lookupM (Context c1) j)"
    and l3: "\<forall>j. lookupM pending j =
        (if lookupM hdrs j \<noteq> None \<and> (lookupM (DataSources c1) j \<noteq> None \<or> lookupM (Context c1) j \<noteq> None)
         then None else lookupM hdrs j)"
    and xh: "ExtraHeaders c' = (if lenM pending > 0 then pending else ExtraHeaders c)"
    using ParseDataSourceFlags_spec [OF assms(1,2)] by blast
  have "lookupM (DataSources c') k = map_option (\<lambda>d. d\<lparr>Header := v\<rparr>) (lookupM (DataSources c1) k)"
    using l1 assms(3) by simp
  moreover have "lookupM (Context c') k = map_option (\<lambda>d. d\<lparr>Header := v\<rparr>) (lookupM (Context c1) k)"
    using l2 assms(3) by simp
  moreover have "lookupM pending k = None"
    using l3 assms(3,4) by simp
  ultimately show ?thesis using r p xh by blast
qed

theorem ParseDataSourceFlags_attaches_headers_witness:
  "parseFlagArgs sampleEnv
     (emptyConfig\<lparr>DataSources := Some [(''foo'', \<lparr>URL = None, Header = None\<rparr>)]\<rparr>) [] [] =
     Inr (emptyConfig\<lparr>DataSources := Some [(''foo'', \<lparr>URL = None, Header = None\<rparr>)]\<rparr>) \<and>
   parseHeaderArgs sampleEnv [''foo=X-Api-Key: abc123''] =
     Inr (Some [(''foo'', Some [(''X-Api-Key'', [''abc123''])])]) \<and>
   lookupM (Some [(''foo'', Some [(''X-Api-Key'', [''abc123''])])]) ''foo'' =
     Some (Some [(''X-Api-Key'', [''abc123''])]) \<and>
   lookupM (DataSources (emptyConfig\<lparr>DataSources := Some [(''foo'', \<lparr>URL = None, Header = None\<rparr>)]\<rparr>)) ''foo''
     = Some \<lparr>URL = None, Header = None\<rparr> \<and>
   (\<exists>c'. ParseDataSourceFlags sampleEnv
       (emptyConfig\<lparr>DataSources := Some [(''foo'', \<lparr>URL = None, Header = None\<rparr>)]\<rparr>) [] []
       [''foo=X-Api-Key: abc123''] = Inr c' \<and>
      lookupM (DataSources c') ''foo'' =
        Some \<lparr>URL = None, Header = Some [(''X-Api-Key'', [''abc123''])]\<rparr> \<and>
      lookupM (Context c') ''foo'' = None)"
proof -
  let ?c = "emptyConfig\<lparr>DataSources := Some [(''foo'', \<lparr>URL = None, Header = None\<rparr>)]\<rparr>"
  let ?v = "Some [(''X-Api-Key'', [''abc123''])]"
  let ?h = "Some [(''foo'', ?v)]"
  have h1: "parseFlagArgs sampleEnv ?c [] [] = Inr ?c" by (rule parseFlagArgs_no_flags)
  have h2: "parseHeaderArgs sampleEnv [''foo=X-Api-Key: abc123''] = Inr ?h"
    by (rule parseHeaderArgs_sample)
  have h3: "lookupM ?h ''foo'' = Some ?v" by (simp add: lookupM_def)
  have h4: "lookupM (DataSources ?c) ''foo'' = Some \<lparr>URL = None, Header = None\<rparr>"
    by (simp add: lookupM_def emptyConfig_def)
  have h4': "lookupM (DataSources ?c) ''foo'' \<noteq> None \<or> lookupM (Context ?c) ''foo'' \<noteq> None"
    using h4 by simp
  have h5: "lookupM (Context ?c) ''foo'' = None" by (simp add: lookupM_def emptyConfig_def)
  from ParseDataSourceFlags_attaches_headers [OF h1 h2 h3 h4']
  obtain c' where "ParseDataSourceFlags sampleEnv ?c [] [] [''foo=X-Api-Key: abc123''] = Inr c'"
    and "lookupM (DataSources c') ''foo'' = map_option (\<lambda>d. d\<lparr>Header := ?v\<rparr>) (lookupM (DataSources ?c) ''foo'')"
    and "lookupM (Context c') ''foo'' = map_option (\<lambda>d. d\<lparr>Header := ?v\<rparr>) (lookupM (Context ?c) ''foo'')"
    by blast
  then have "\<exists>c'. ParseDataSourceFlags sampleEnv ?c [] [] [''foo=X-Api-Key: abc123''] = Inr c' \<and>
      lookupM (DataSources c') ''foo'' = Some \<lparr>URL = None, Header = ?v\<rparr> \<and>
      lookupM (Context c') ''foo'' = None"
    unfolding h4 h5 by simp
  then show ?thesis using h1 h2 h3 h4 by blast
qed

text \<open>
  The claim as first stated fails: a descriptor that already has an \<open>Accept\<close> header
  loses it when a header flag for its alias is parsed; its header set is the parsed one.
\<close>

theorem ParseDataSourceFlags_attaches_headers_counterexample:
  "lookupM (DataSources (emptyConfig\<lparr>DataSources :=
       Some [(''foo'', \<lparr>URL = None, Header = Some [(''Accept'', [''text/plain''])]\<rparr>)]\<rparr>)) ''foo'' =
     Some \<lparr>URL = None, Header = Some [(''Accept'', [''text/plain''])]\<rparr> \<and>
   map_sum id (\<lambda>c'. lookupM (DataSources c') ''foo'')
     (ParseDataSourceFlags sampleEnv
        (emptyConfig\<lparr>DataSources :=
           Some [(''foo'', \<lparr>URL = None, Header = Some [(''Accept'', [''text/plain''])]\<rparr>)]\<rparr>)
        [] [] [''foo=X-Api-Key: abc123'']) =
     Inr (Some \<lparr>URL = None, Header = Some [(''X-Api-Key'', [''abc123''])]\<rparr>)"
  by (simp add: ParseDataSourceFlags_def parseFlagArgs_no_flags parseHeaderArgs_sample
      reconcileHeaders_def rangeM_def attachHeader_def lookupM_def storeM_def deleteM_def
      lenM_def emptyConfig_def)

text \<open>
  C10 (as amended): an alias \<open>k\<close> of a parsed header set \<open>v\<close> that matches a
  descriptor in \<open>DataSources\<close> and one in \<open>Context\<close> gives both descriptors the header
  set \<open>v\<close>, and is removed from the pending map. \<open>ExtraHeaders\<close> is assigned the
  pending map only when that is not empty and is left as the caller had it otherwise;
  so the alias is not in \<open>ExtraHeaders\<close> afterwards provided the Config had no
  \<open>ExtraHeaders\<close> entry for it before the call.
\<close>

theorem ParseDataSourceFlags_alias_in_both:
  assumes "parseFlagArgs e c dss ctxs = Inr c1"
    and "parseHeaderArgs e hs = Inr hdrs"
    and "lookupM hdrs k = Some v"
    and "lookupM (DataSources c1) k = Some d1"
    and "lookupM (Context c1) k = Some d2"
    and "lookupM (ExtraHeaders c) k = None"
  shows "\<exists>c2 pending c'.
      reconcileHeaders c1 hdrs = Inr (c2, pending) \<and>
      ParseDataSourceFlags e c dss ctxs hs = Inr c' \<and>
      lookupM (DataSources c') k = Some (d1\<lparr>Header := v\<rparr>) \<and>
      lookupM (Context c') k = Some (d2\<lparr>Header := v\<rparr>) \<and>
      lookupM pending k = None \<and>
      ExtraHeaders c' = (if lenM pending > 0 then pending else ExtraHeaders c) \<and>
      lookupM (ExtraHeaders c') k = None"
proof -
  obtain c2 pending c' where r: "reconcileHeaders c1 hdrs = Inr (c2, pending)"
    and p: "ParseDataSourceFlags e c dss ctxs hs = Inr c'"
    and l1: "\<forall>j. lookupM (DataSources c') j =
        (case lookupM hdrs j of
           Some v \<Rightarrow> map_option (\<lambda>d. d\<lparr>Header := v\<rparr>) (lookupM (DataSources c1) j)
         | None \<Rightarrow> lookupM (DataSources c1) j)"
    and l2: "\<forall>j. lookupM (Context c') j =
        (case lookupM hdrs j of
           Some v \<Rightarrow> map_option (\<lambda>d. d\<lparr>Header := v\<rparr>) (lookupM (Context c1) j)
         | None \<Rightarrow> lookupM (Context c1) j)"
    and l3: "\<forall>j. lookupM pending j =
        (if lookupM hdrs j \<noteq> None \<and> (lookupM (DataSources c1) j \<noteq> None \<or> lookupM (Context c1) j \<noteq> None)
         then None else lookupM hdrs j)"
    and xh: "ExtraHeaders c' = (if lenM pending > 0 then pending else ExtraHeaders c)"
    using ParseDataSourceFlags_spec [OF assms(1,2)] by blast
  have ds: "lookupM (DataSources c') k = Some (d1\<lparr>Header := v\<rparr>)"
    using l1 assms(3,4) by simp
  have cx: "lookupM (Context c') k = Some (d2\<lparr>Header := v\<rparr>)"
    using l2 assms(3,5) by simp
  have pk: "lookupM pending k = None"
    using l3 assms(3,4) by simp
  have xk: "lookupM (ExtraHeaders c') k = None"
    using xh pk assms(6) by (cases "lenM pending > 0") simp_all
  show ?thesis using r p ds cx pk xh xk by blast
qed

theorem ParseDataSourceFlags_alias_in_both_witness:
  "parseFlagArgs sampleEnv
     (emptyConfig\<lparr>DataSources := Some [(''foo'', \<lparr>URL = None, Header = None\<rparr>)],
        Context := Some [(''foo'', \<lparr>URL = None, Header = None\<rparr>)]\<rparr>) [] [] =
     Inr (emptyConfig\<lparr>DataSources := Some [(''foo'', \<lparr>URL = None, Header = None\<rparr>)],
        Context := Some [(''foo'', \<lparr>URL = None, Header = None\<rparr>)]\<rparr>) \<and>
   parseHeaderArgs sampleEnv [''foo=X-Api-Key: abc123''] =
     Inr (Some [(''foo'', Some [(''X-Api-Key'', [''abc123''])])]) \<and>
   lookupM (Some [(''foo'', Some [(''X-Api-Key'', [''abc123''])])]) ''foo'' =
     Some (Some [(''X-Api-Key'', [''abc123''])]) \<and>
   lookupM (DataSources (emptyConfig\<lparr>DataSources := Some [(''foo'', \<lparr>URL = None, Header = None\<rparr>)],
        Context := Some [(''foo'', \<lparr>URL = None, Header = None\<rparr>)]\<rparr>)) ''foo''
     = Some \<lparr>URL = None, Header = None\<rparr> \<and>
   lookupM (Context (emptyConfig\<lparr>DataSources := Some [(''foo'', \<lparr>URL = None, Header = None\<rparr>)],
        Context := Some [(''foo'', \<lparr>URL = None, Header = None\<rparr>)]\<rparr>)) ''foo''
     = Some \<lparr>URL = None, Header = None\<rparr> \<and>
   lookupM (ExtraHeaders (emptyConfig\<lparr>DataSources := Some [(''foo'', \<lparr>URL = None, Header = None\<rparr>)],
        Context := Some [(''foo'', \<lparr>URL = None, Header = None\<rparr>)]\<rparr>)) ''foo'' = None \<and>
   (\<exists>c'. ParseDataSourceFlags sampleEnv
       (emptyConfig\<lparr>DataSources := Some [(''foo'', \<lparr>URL = None, Header = None\<rparr>)],
        Context := Some [(''foo'', \<lparr>URL = None, Header = None\<rparr>)]\<rparr>) [] []
       [''foo=X-Api-Key: abc123''] = Inr c' \<and>
      lookupM (DataSources c') ''foo'' =
        Some \<lparr>URL = None, Header = Some [(''X-Api-Key'', [''abc123''])]\<rparr> \<and>
      lookupM (Context c') ''foo'' =
        Some \<lparr>URL = None, Header = Some [(''X-Api-Key'', [''abc123''])]\<rparr> \<and>
      lookupM (ExtraHeaders c') ''foo'' = None)"
proof -
  let ?c = "emptyConfig\<lparr>DataSources := Some [(''foo'', \<lparr>URL = None, Header = None\<rparr>)],
        Context := Some [(''foo'', \<lparr>URL = None, Header = None\<rparr>)]\<rparr>"
  let ?v = "Some [(''X-Api-Key'', [''abc123''])]"
  let ?h = "Some [(''foo'', ?v)]"
  have h1: "parseFlagArgs sampleEnv ?c [] [] = Inr ?c" by (rule parseFlagArgs_no_flags)
  have h2: "parseHeaderArgs sampleEnv [''foo=X-Api-Key: abc123''] = Inr ?h"
    by (rule parseHeaderArgs_sample)
  have h3: "lookupM ?h ''foo'' = Some ?v" by (simp add: lookupM_def)
  have h4: "lookupM (DataSources ?c) ''foo'' = Some \<lparr>URL = None, Header = None\<rparr>"
    by (simp add: lookupM_def emptyConfig_def)
  have h5: "lookupM (Context ?c) ''foo'' = Some \<lparr>URL = None, Header = None\<rparr>"
    by (simp add: lookupM_def emptyConfig_def)
  have h6: "lookupM (ExtraHeaders ?c) ''foo'' = None"
    by (simp add: lookupM_def emptyConfig_def)
  from ParseDataSourceFlags_alias_in_both [OF h1 h2 h3 h4 h5 h6]
  have "\<exists>c'. ParseDataSourceFlags sampleEnv ?c [] [] [''foo=X-Api-Key: abc123''] = Inr c' \<and>
      lookupM (DataSources c') ''foo'' = Some \<lparr>URL = None, Header = ?v\<rparr> \<and>
      lookupM (Context c') ''foo'' = Some \<lparr>URL = None, Header = ?v\<rparr> \<and>
      lookupM (ExtraHeaders c') ''foo'' = None"
    by auto
  then show ?thesis using h1 h2 h3 h4 h5 h6 by blast
qed

text \<open>
  The claim as first stated fails for a Config that already has an \<open>ExtraHeaders\<close>
  entry for the alias: the alias matches both descriptors, the pending map ends empty,
  \<open>ExtraHeaders\<close> is not assigned, and the old entry is still there after the call.
\<close>

theorem ParseDataSourceFlags_alias_in_both_counterexample:
  "lookupM (DataSources (emptyConfig\<lparr>DataSources := Some [(''foo'', \<lparr>URL = None, Header = None\<rparr>)],
        Context := Some [(''foo'', \<lparr>URL = None, Header = None\<rparr>)],
        ExtraHeaders := Some [(''foo'', Some [(''X-Old'', [''1''])])]\<rparr>)) ''foo''
     = Some \<lparr>URL = None, Header = None\<rparr> \<and>
   lookupM (Context (emptyConfig\<lparr>DataSources := Some [(''foo'', \<lparr>URL = None, Header = None\<rparr>)],
        Context := Some [(''foo'', \<lparr>URL = None, Header = None\<rparr>)],
        ExtraHeaders := Some [(''foo'', Some [(''X-Old'', [''1''])])]\<rparr>)) ''foo''
     = Some \<lparr>URL = None, Header = None\<rparr> \<and>
   parseHeaderArgs sampleEnv [''foo=X-Api-Key: abc123''] =
     Inr (Some [(''foo'', Some [(''X-Api-Key'', [''abc123''])])]) \<and>
   map_sum id (\<lambda>c'. (lookupM (DataSources c') ''foo'', lookupM (Context c') ''foo'',
                       lookupM (ExtraHeaders c') ''foo''))
     (ParseDataSourceFlags sampleEnv
        (emptyConfig\<lparr>DataSources := Some [(''foo'', \<lparr>URL = None, Header = None\<rparr>)],
           Context := Some [(''foo'', \<lparr>URL = None, Header = None\<rparr>)],
           ExtraHeaders := Some [(''foo'', Some [(''X-Old'', [''1''])])]\<rparr>)
        [] [] [''foo=X-Api-Key: abc123'']) =
     Inr (Some \<lparr>URL = None, Header = Some [(''X-Api-Key'', [''abc123''])]\<rparr>,
          Some \<lparr>URL = None, Header = Some [(''X-Api-Key'', [''abc123''])]\<rparr>,
          Some (Some [(''X-Old'', [''1''])]))"
  by (simp add: ParseDataSourceFlags_def parseFlagArgs_no_flags parseHeaderArgs_sample
      reconcileHeaders_def rangeM_def attachHeader_def lookupM_def storeM_def deleteM_def
      lenM_def emptyConfig_def)

subsection \<open>Resolving relative paths\<close>

lemma Split_nonempty: "Split sep s \<noteq> []"
  by (induction s) (auto split: list.splits)

lemma Split_Cons:
  "Split sep (c # cs) =
     (if c = sep then [] # Split sep cs else (c # hd (Split sep cs)) # tl (Split sep cs))"
  using Split_nonempty [of sep cs] by (cases "Split sep cs") auto

declare Split.simps(2) [simp del]

declare Split_Cons [simp]

lemma Split_append: "Split sep (a @ sep # b) = Split sep a @ Split sep b"
proof (induction a)
  case Nil
  then show ?case by simp
next
  case (Cons c a)
  then show ?case
    using Split_nonempty [of sep a] by (cases "Split sep a") auto
qed

lemma Join_Cons: "xs \<noteq> [] \<Longrightarrow> Join sep (x # xs) = x @ sep # Join sep xs"
  by (cases xs) auto

lemma Join_Split: "Join sep (Split sep s) = s"
proof (induction s)
  case Nil
  then show ?case by simp
next
  case (Cons c s)
  show ?case
  proof (cases "c = sep")
    case True
    then show ?thesis using Cons Split_nonempty [of sep s] by (simp add: Join_Cons)
  next
    case False
    obtain x xs where x: "Split sep s = x # xs"
      using Split_nonempty [of sep s] by (cases "Split sep s") auto
    show ?thesis
      using Cons False x by (cases xs) auto
  qed
qed

lemma removeDots_no_dots:
  "''.'' \<notin> set src \<Longrightarrow> ''..'' \<notin> set src \<Longrightarrow> removeDots dst src = dst @ src"
  by (induction src arbitrary: dst) auto

lemma LastIndex_snoc: "LastIndex (s @ [sep]) sep = Some (length s)"
  by (induction s) auto

lemma Cut_None: "sep \<notin> set s \<Longrightarrow> Cut sep s = None"
  by (induction s) auto

lemma unescape_no_percent: "CHR ''%'' \<notin> set s \<Longrightarrow> unescape s mode = Inr s"
  by (induction s) auto


lemma of_char_less_256: "(of_char c :: nat) < 256"
proof -
  have "(of_char c :: nat) mod 256 = of_char c" by simp
  then show ?thesis by (metis mod_less_divisor zero_less_numeral)
qed

lemma nibble_cases:
  "k < 16 \<Longrightarrow> k \<in> {0, 1, 2, 3, 4, 5, 6, 7, 8, 9, 10, 11, 12, 13, 14, 15 :: nat}"
  by simp arith

lemma upperhex_ishex: "k < 16 \<Longrightarrow> ishex (upperhex k)"
  by (drule nibble_cases) (auto simp: upperhex_def ishex_def)

lemma unhex_upperhex: "k < 16 \<Longrightarrow> unhex (upperhex k) = k"
  by (drule nibble_cases) (auto simp: upperhex_def unhex_def)

lemma upperhex_not_special: "k < 16 \<Longrightarrow> upperhex k \<noteq> CHR ''/'' \<and> upperhex k \<noteq> CHR ''.''"
  by (drule nibble_cases) (auto simp: upperhex_def)

lemma shouldEscape_percent: "shouldEscape (CHR ''%'') mode"
  by (cases mode) (simp_all add: shouldEscape_def isAlpha_def isDigit_def)

lemma shouldEscape_slash: "\<not> shouldEscape (CHR ''/'') encodePath"
  by (simp add: shouldEscape_def isAlpha_def isDigit_def)

lemma shouldEscape_dot: "\<not> shouldEscape (CHR ''.'') encodePath"
  by (simp add: shouldEscape_def isAlpha_def isDigit_def)

lemma unescape_escapeByte:
  "unescape (escapeByte c mode @ rest) mode =
     (case unescape rest mode of Inl e \<Rightarrow> Inl e | Inr t \<Rightarrow> Inr (c # t))"
proof (cases "shouldEscape c mode")
  case True
  let ?n = "of_char c :: nat"
  have d: "?n div 16 < 16" and m: "?n mod 16 < 16"
    using of_char_less_256 [of c] by arith+
  have "char_of (?n div 16 * 16 + ?n mod 16) = c" by simp
  then have "char_of (unhex (upperhex (?n div 16)) * 16 + unhex (upperhex (?n mod 16))) = c"
    by (simp add: unhex_upperhex d m)
  then show ?thesis
    using True d m by (simp add: escapeByte_def upperhex_ishex split: sum.splits)
next
  case False
  then have "c \<noteq> CHR ''%''" using shouldEscape_percent by auto
  then show ?thesis using False by (simp add: escapeByte_def)
qed

lemma unescape_escape_append:
  "unescape (escape a mode @ b) mode =
     (case unescape b mode of Inl e \<Rightarrow> Inl e | Inr t \<Rightarrow> Inr (a @ t))"
  by (induction a) (auto simp: escape_def unescape_escapeByte split: sum.splits)

lemma unescape_escape: "unescape (escape a mode) mode = Inr a"
  using unescape_escape_append [of a mode "[]"] by simp


lemma escape_Nil: "escape [] mode = []"
  by (simp add: escape_def)

lemma escape_Cons: "escape (c # s) mode = escapeByte c mode @ escape s mode"
  by (simp add: escape_def)

lemma escape_append: "escape (a @ b) mode = escape a mode @ escape b mode"
  by (simp add: escape_def)

lemma escape_slash: "escape ''/'' encodePath = ''/''"
  by (simp add: escape_def escapeByte_def shouldEscape_slash)

lemma escape_no_percent: "CHR ''%'' \<notin> set (escape s mode) \<Longrightarrow> escape s mode = s"
  by (induction s) (auto simp: escape_Nil escape_Cons escapeByte_def split: if_splits)

lemma escapeByte_no_slash: "c \<noteq> CHR ''/'' \<Longrightarrow> CHR ''/'' \<notin> set (escapeByte c mode)"
proof -
  have d: "(of_char c :: nat) div 16 < 16" and m: "(of_char c :: nat) mod 16 < 16"
    using of_char_less_256 [of c] by arith+
  assume "c \<noteq> CHR ''/''"
  then show ?thesis
    using upperhex_not_special [OF d] upperhex_not_special [OF m]
    by (auto simp: escapeByte_def)
qed

lemma escapeByte_slash: "escapeByte (CHR ''/'') encodePath = ''/''"
  by (simp add: escapeByte_def shouldEscape_slash)

lemma Split_prefix:
  "sep \<notin> set xs \<Longrightarrow> Split sep (xs @ t) = (xs @ hd (Split sep t)) # tl (Split sep t)"
  using Split_nonempty [of sep t] by (induction xs) auto

lemma Split_escape:
  "Split (CHR ''/'') (escape s encodePath) = map (\<lambda>seg. escape seg encodePath) (Split (CHR ''/'') s)"
proof (induction s)
  case Nil
  then show ?case by (simp add: escape_Nil)
next
  case (Cons c s)
  show ?case
  proof (cases "c = CHR ''/''")
    case True
    then show ?thesis using Cons by (simp add: escape_Cons escapeByte_slash escape_Nil)
  next
    case False
    have ne: "Split (CHR ''/'') s \<noteq> []" by (rule Split_nonempty)
    show ?thesis
      using False Cons ne
      by (simp add: escape_Cons Split_prefix [OF escapeByte_no_slash [OF False]] hd_map map_tl)
  qed
qed

lemma escape_eq_dots:
  assumes "escape seg encodePath = t" and "t = ''.'' \<or> t = ''..''"
  shows "seg = t"
proof -
  have "CHR ''%'' \<notin> set (escape seg encodePath)"
    using assms by auto
  then have "escape seg encodePath = seg" by (rule escape_no_percent)
  then show ?thesis using assms(1) by simp
qed

lemma noDotSegments_escape:
  assumes "noDotSegments s"
  shows "noDotSegments (escape s encodePath)"
proof -
  have "t \<notin> set (map (\<lambda>seg. escape seg encodePath) (Split (CHR ''/'') s))"
    if t: "t = ''.'' \<or> t = ''..''" for t
  proof
    assume "t \<in> set (map (\<lambda>seg. escape seg encodePath) (Split (CHR ''/'') s))"
    then obtain seg where seg: "seg \<in> set (Split (CHR ''/'') s)" and e: "escape seg encodePath = t"
      by auto
    have "seg = t" using escape_eq_dots [OF e t] .
    then show False using seg t assms by (auto simp: noDotSegments_def)
  qed
  then show ?thesis
    unfolding noDotSegments_def Split_escape by blast
qed

lemma HasPrefix_slash: "HasPrefix s ''/'' \<longleftrightarrow> (\<exists>t. s = CHR ''/'' # t)"
  by (cases s) (auto simp: HasPrefix_def)

lemma HasPrefix_escape:
  "HasPrefix (escape s encodePath) ''/'' \<longleftrightarrow> HasPrefix s ''/''"
proof (cases s)
  case Nil
  then show ?thesis by (simp add: escape_Nil)
next
  case (Cons c t)
  show ?thesis
  proof (cases "c = CHR ''/''")
    case True
    then show ?thesis by (simp add: Cons HasPrefix_slash escape_Cons escapeByte_slash)
  next
    case False
    have "escapeByte c encodePath \<noteq> []" by (simp add: escapeByte_def)
    then obtain x xs where x: "escapeByte c encodePath = x # xs"
      by (cases "escapeByte c encodePath") auto
    then have "x \<noteq> CHR ''/''" using escapeByte_no_slash [OF False, of encodePath] by auto
    then show ?thesis using False by (simp add: Cons HasPrefix_slash escape_Cons x)
  qed
qed


lemma firstSegment_Cons:
  "firstSegment (c # cs) = (if c = CHR ''/'' then [] else c # firstSegment cs)"
  by (simp add: firstSegment_def split: option.splits)

lemma getScheme_loop_no_colon:
  "CHR '':'' \<notin> set (firstSegment cs) \<Longrightarrow> getScheme_loop raw i cs = Inr ([], raw)"
  by (induction cs arbitrary: i)
     (auto simp: firstSegment_Cons isAlpha_def isDigit_def split: if_splits)

lemma HasSuffix_mem: "HasSuffix s [c] \<Longrightarrow> c \<in> set s"
proof -
  assume "HasSuffix s [c]"
  then have "drop (length s - 1) s = [c]" by (simp add: HasSuffix_def)
  then have "c \<in> set (drop (length s - 1) s)" by simp
  then show ?thesis by (rule in_set_dropD)
qed

lemma HasPrefix_two: "HasPrefix s ''//'' \<Longrightarrow> HasPrefix s ''/''"
  by (cases s) (auto simp: HasPrefix_def)

lemma parse_plain:
  assumes "plainRelativePath p"
  shows "\<exists>r. parse e p = Inr (emptyURL\<lparr>Path := p, RawPath := r\<rparr>) \<and> (r = [] \<or> r = p)"
proof (cases "p = ''*''")
  case True
  have "\<not> stringContainsCTLByte ''*''" by (simp add: stringContainsCTLByte_def)
  then show ?thesis using True by (simp add: parse_def emptyURL_def)
next
  case False
  from assms have ctl: "\<not> stringContainsCTLByte p" and q: "CHR ''?'' \<notin> set p"
    and pc: "CHR ''%'' \<notin> set p" and col: "CHR '':'' \<notin> set (firstSegment p)"
    and sl: "\<not> HasPrefix p ''/''"
    by (simp_all add: plainRelativePath_def)
  have gs: "getScheme p = Inr ([], p)"
    by (simp add: getScheme_def getScheme_loop_no_colon [OF col])
  have sq: "splitQuery emptyURL p = (p, emptyURL)"
    using q HasSuffix_mem [of p "CHR ''?''"] by (auto simp: splitQuery_def Cut_None)
  have sl2: "\<not> HasPrefix p ''//''" using sl HasPrefix_two by blast
  have e0: "emptyURL\<lparr>Scheme := ToLower []\<rparr> = emptyURL" "Scheme emptyURL = []"
    by (simp_all add: emptyURL_def ToLower_def)
  have sp: "setPath emptyURL p =
      Inr (emptyURL\<lparr>Path := p, RawPath := (if p = escape p encodePath then [] else p)\<rparr>)"
    by (simp add: setPath_def unescape_no_percent [OF pc])
  have "parse e p = setPath emptyURL p"
    using False ctl gs sq sl sl2 col by (simp add: parse_def e0)
  then show ?thesis using sp by auto
qed

lemma url_Parse_plain:
  assumes "plainRelativePath p"
  shows "\<exists>r. url_Parse e p = Inr (emptyURL\<lparr>Path := p, RawPath := r\<rparr>) \<and> (r = [] \<or> r = p)"
proof -
  have "CHR ''#'' \<notin> set p" using assms by (simp add: plainRelativePath_def)
  then have "url_Parse e p = parse e p"
    by (auto simp: url_Parse_def Cut_None split: sum.splits)
  then show ?thesis using parse_plain [OF assms] by simp
qed

lemma EscapedPath_ref:
  assumes "r = [] \<or> r = p"
  shows "EscapedPath (emptyURL\<lparr>Path := p, RawPath := r\<rparr>) = p \<or>
         EscapedPath (emptyURL\<lparr>Path := p, RawPath := r\<rparr>) = escape p encodePath"
  using assms by (auto simp: EscapedPath_def)

lemma EscapedPath_base:
  "EscapedPath (emptyURL\<lparr>Scheme := sch, Path := wd @ ''/''\<rparr>) = escape wd encodePath @ ''/''"
proof -
  have "wd @ ''/'' \<noteq> ''*''" by (cases wd) auto
  then show ?thesis
    by (simp add: EscapedPath_def emptyURL_def escape_append escape_slash)
qed

lemma resolvePath_no_dots:
  assumes "noDotSegments b" and "noDotSegments ep" and "\<not> HasPrefix ep ''/''"
  shows "resolvePath (b @ ''/'') ep = CHR ''/'' # TrimPrefix (b @ ''/'' @ ep) ''/''"
proof -
  let ?full = "b @ CHR ''/'' # ep"
  have full: "(if ep = [] then b @ ''/''
       else if ep ! 0 \<noteq> CHR ''/'' then
         (case LastIndex (b @ ''/'') (CHR ''/'') of Some i \<Rightarrow> take (Suc i) (b @ ''/'') @ ep | None \<Rightarrow> ep)
       else ep) = ?full"
  proof (cases ep)
    case Nil
    then show ?thesis by simp
  next
    case (Cons x xs)
    then have "x \<noteq> CHR ''/''" using assms(3) by (simp add: HasPrefix_slash)
    then show ?thesis using Cons LastIndex_snoc [of b "CHR ''/''"] by simp
  qed
  let ?src = "Split (CHR ''/'') ?full"
  have src: "?src = Split (CHR ''/'') b @ Split (CHR ''/'') ep" by (rule Split_append)
  have nd: "''.'' \<notin> set ?src" "''..'' \<notin> set ?src"
    using assms(1,2) by (simp_all add: src noDotSegments_def)
  have rd: "removeDots [] ?src = ?src" using removeDots_no_dots [OF nd, of "[]"] by simp
  have "last ?src \<in> set ?src" using Split_nonempty by (rule last_in_set)
  then have l: "last ?src \<noteq> ''.''" "last ?src \<noteq> ''..''" using nd by auto
  show ?thesis
    unfolding resolvePath_def full Let_def using rd l by (simp add: Join_Split)
qed


lemma unescape_slash_Cons:
  "unescape ep mode = Inr p \<Longrightarrow> unescape (CHR ''/'' # ep) mode = Inr (CHR ''/'' # p)"
  by simp

lemma drive_index:
  assumes "length wd \<ge> 2"
  shows "(c # wd @ rest) ! 2 = wd ! 1 \<and> length (c # wd @ rest) > 2"
proof -
  obtain a b t where "wd = a # b # t"
    using assms by (cases wd; cases "tl wd") auto
  then show ?thesis by simp
qed

lemma ResolveReference_plain:
  assumes pl: "plainRelativePath p" and ndp: "noDotSegments p" and ndw: "noDotSegments wd"
    and r: "r = [] \<or> r = p" and wne: "wd \<noteq> []"
  shows "Scheme (ResolveReference (emptyURL\<lparr>Scheme := ''file'', Path := wd @ ''/''\<rparr>)
                  (emptyURL\<lparr>Path := p, RawPath := r\<rparr>)) = ''file'' \<and>
         Path (ResolveReference (emptyURL\<lparr>Scheme := ''file'', Path := wd @ ''/''\<rparr>)
                  (emptyURL\<lparr>Path := p, RawPath := r\<rparr>)) =
           (if HasPrefix wd ''/'' then wd @ ''/'' @ p else CHR ''/'' # wd @ ''/'' @ p)"
proof -
  let ?base = "emptyURL\<lparr>Scheme := ''file'', Path := wd @ ''/''\<rparr>"
  let ?ref = "emptyURL\<lparr>Path := p, RawPath := r\<rparr>"
  let ?ep = "EscapedPath ?ref"
  let ?ew = "escape wd encodePath"
  from pl have pc: "CHR ''%'' \<notin> set p" and sl: "\<not> HasPrefix p ''/''"
    by (simp_all add: plainRelativePath_def)
  have ep: "?ep = p \<or> ?ep = escape p encodePath" by (rule EscapedPath_ref [OF r])
  have un: "unescape ?ep encodePath = Inr p"
    using ep unescape_no_percent [OF pc] unescape_escape by metis
  have nd: "noDotSegments ?ep"
    using ep ndp noDotSegments_escape by metis
  have np: "\<not> HasPrefix ?ep ''/''"
    using ep sl HasPrefix_escape by metis
  define rpv where "rpv = resolvePath (EscapedPath ?base) ?ep"
  have rp: "rpv = CHR ''/'' # TrimPrefix (?ew @ ''/'' @ ?ep) ''/''"
    unfolding rpv_def EscapedPath_base
    by (rule resolvePath_no_dots [OF noDotSegments_escape [OF ndw] nd np])
  have un2: "unescape rpv encodePath =
      Inr (if HasPrefix wd ''/'' then wd @ ''/'' @ p else CHR ''/'' # wd @ ''/'' @ p)"
  proof (cases "HasPrefix wd ''/''")
    case True
    then obtain t where t: "?ew = CHR ''/'' # t"
      using HasPrefix_escape [of wd] by (auto simp: HasPrefix_slash)
    have "rpv = ?ew @ CHR ''/'' # ?ep"
      unfolding rp by (simp add: t TrimPrefix_def HasPrefix_def)
    then show ?thesis
      using True un by (simp add: unescape_escape_append)
  next
    case False
    have "?ew \<noteq> []"
      using wne by (cases wd) (auto simp: escape_Cons escapeByte_def)
    then have "\<not> HasPrefix (?ew @ ''/'' @ ?ep) ''/''"
      using False HasPrefix_escape [of wd] by (cases ?ew) (auto simp: HasPrefix_slash)
    then have "rpv = CHR ''/'' # ?ew @ CHR ''/'' # ?ep"
      unfolding rp by (simp add: TrimPrefix_def)
    then show ?thesis
      using False un by (simp add: unescape_escape_append)
  qed
  have rr: "ResolveReference ?base ?ref = setPath_ignoring (?ref\<lparr>Scheme := ''file''\<rparr>) rpv"
    unfolding rpv_def by (simp add: ResolveReference_def emptyURL_def Let_def)
  show ?thesis
    unfolding rr by (simp add: setPath_ignoring_def setPath_def un2)
qed

lemma absFileURL_plain:
  assumes "Getwd e = Some wd0" and "rootedDir (ToSlash e wd0)" and "noDotSegments (ToSlash e wd0)"
    and "plainRelativePath p" and "noDotSegments p"
  shows "\<exists>u. absFileURL e p = Inr u \<and> Scheme u = ''file'' \<and> Path u = ToSlash e wd0 @ ''/'' @ p"
proof -
  let ?wd = "ToSlash e wd0"
  obtain r where pr: "url_Parse e p = Inr (emptyURL\<lparr>Path := p, RawPath := r\<rparr>)" and r: "r = [] \<or> r = p"
    using url_Parse_plain [OF assms(4)] by blast
  have wne: "?wd \<noteq> []"
    using assms(2) by (auto simp: rootedDir_def HasPrefix_def)
  let ?res = "ResolveReference (emptyURL\<lparr>Scheme := ''file'', Path := ?wd @ ''/''\<rparr>) (emptyURL\<lparr>Path := p, RawPath := r\<rparr>)"
  have sch: "Scheme ?res = ''file''"
    and pth: "Path ?res = (if HasPrefix ?wd ''/'' then ?wd @ ''/'' @ p else CHR ''/'' # ?wd @ ''/'' @ p)"
    using ResolveReference_plain [OF assms(4,5,3) r wne] by simp_all
  show ?thesis
  proof (cases "HasPrefix ?wd ''/''")
    case True
    then show ?thesis
      using assms(1) pr sch pth by (simp add: absFileURL_def Let_def)
  next
    case False
    then have l: "length ?wd \<ge> 2" and c: "?wd ! 1 = CHR '':''"
      using assms(2) by (simp_all add: rootedDir_def)
    have p2: "Path ?res = CHR ''/'' # ?wd @ ''/'' @ p" using pth False by simp
    have "Path ?res ! 2 = CHR '':''" "length (Path ?res) > 2"
      using drive_index [OF l, of "CHR ''/''" "''/'' @ p"] c unfolding p2 by simp_all
    then show ?thesis
      using assms(1) pr sch False p2 by (simp add: absFileURL_def Let_def)
  qed
qed

text \<open>
  C7 (as amended): let the working directory, in slash form, be rooted and free of
  \<open>.\<close> and \<open>..\<close> segments, and let \<open>p\<close> be neither \<open>-\<close> nor a path with a volume name.
  If \<open>p\<close> in slash form is a plain relative path with no \<open>.\<close> or \<open>..\<close> segment, then
  \<open>parseSourceURL\<close> returns an absolute URL with scheme \<open>file\<close> whose path is the
  working directory, a slash, and \<open>p\<close>, both in slash form.
\<close>

theorem parseSourceURL_relative:
  assumes "Getwd e = Some wd0"
    and "rootedDir (ToSlash e wd0)" and "noDotSegments (ToSlash e wd0)"
    and "p \<noteq> ''-''" and "VolumeName e (ToSlash e p) = []"
    and "plainRelativePath (ToSlash e p)" and "noDotSegments (ToSlash e p)"
  shows "\<exists>u. parseSourceURL e p = Inr u \<and> IsAbs u \<and> Scheme u = ''file'' \<and>
           Path u = ToSlash e wd0 @ ''/'' @ ToSlash e p"
proof -
  let ?p = "ToSlash e p"
  obtain r where pr: "url_Parse e ?p = Inr (emptyURL\<lparr>Path := ?p, RawPath := r\<rparr>)"
    using url_Parse_plain [OF assms(6)] by blast
  have na: "\<not> IsAbs (emptyURL\<lparr>Path := ?p, RawPath := r\<rparr>)"
    by (simp add: IsAbs_def emptyURL_def)
  have "parseSourceURL e p = absFileURL e ?p"
    using assms(4,5) pr na by (simp add: parseSourceURL_def Let_def)
  then show ?thesis
    using absFileURL_plain [OF assms(1,2,3,6,7)] by (auto simp: IsAbs_def)
qed


theorem parseSourceURL_relative_witness:
  "Getwd sampleEnv = Some ''/home/user'' \<and>
   rootedDir (ToSlash sampleEnv ''/home/user'') \<and>
   noDotSegments (ToSlash sampleEnv ''/home/user'') \<and>
   ''bar/data.json'' \<noteq> ''-'' \<and>
   VolumeName sampleEnv (ToSlash sampleEnv ''bar/data.json'') = [] \<and>
   plainRelativePath (ToSlash sampleEnv ''bar/data.json'') \<and>
   noDotSegments (ToSlash sampleEnv ''bar/data.json'') \<and>
   (\<exists>u. parseSourceURL sampleEnv ''bar/data.json'' = Inr u \<and> IsAbs u \<and> Scheme u = ''file'' \<and>
        Path u = ''/home/user/bar/data.json'')"
proof -
  have h1: "Getwd sampleEnv = Some ''/home/user''" by (simp add: sampleEnv_def)
  have h2: "rootedDir (ToSlash sampleEnv ''/home/user'')" by code_simp
  have h3: "noDotSegments (ToSlash sampleEnv ''/home/user'')" by code_simp
  have h4: "''bar/data.json'' \<noteq> ''-''" by simp
  have h5: "VolumeName sampleEnv (ToSlash sampleEnv ''bar/data.json'') = []"
    by (simp add: sampleEnv_def)
  have h6: "plainRelativePath (ToSlash sampleEnv ''bar/data.json'')" by code_simp
  have h7: "noDotSegments (ToSlash sampleEnv ''bar/data.json'')" by code_simp
  have t: "ToSlash sampleEnv ''/home/user'' @ ''/'' @ ToSlash sampleEnv ''bar/data.json'' =
      ''/home/user/bar/data.json''"
    by (simp add: ToSlash_def sampleEnv_def)
  from parseSourceURL_relative [OF h1 h2 h3 h4 h5 h6 h7]
  have "\<exists>u. parseSourceURL sampleEnv ''bar/data.json'' = Inr u \<and> IsAbs u \<and> Scheme u = ''file'' \<and>
        Path u = ''/home/user/bar/data.json''"
    unfolding t .
  then show ?thesis using h1 h2 h3 h4 h5 h6 h7 by blast
qed

text \<open>
  The claim as first stated fails for a relative path with a \<open>..\<close> segment: reference
  resolution removes it together with the last segment of the working directory.
\<close>

theorem parseSourceURL_relative_counterexample:
  "Getwd sampleEnv = Some ''/home/user'' \<and>
   ''../x'' \<noteq> ''-'' \<and>
   VolumeName sampleEnv (ToSlash sampleEnv ''../x'') = [] \<and>
   plainRelativePath (ToSlash sampleEnv ''../x'') \<and>
   map_sum id Path (parseSourceURL sampleEnv ''../x'') = Inr ''/home/x'' \<and>
   ''/home/x'' \<noteq> ToSlash sampleEnv ''/home/user'' @ ''/'' @ ToSlash sampleEnv ''../x''"
  by code_simp

text \<open>
  A query or a percent-escape in the path text is taken as URL syntax as well: the
  query is split off, the escape is decoded.
\<close>

lemma parseSourceURL_query_example:
  "map_sum id (\<lambda>u. (Path u, RawQuery u)) (parseSourceURL sampleEnv ''a?b'') = Inr (''/home/user/a'', ''b'')"
  by code_simp

lemma parseSourceURL_escape_example:
  "map_sum id Path (parseSourceURL sampleEnv ''a%41b'') = Inr ''/home/user/aAb''"
  by code_simp

subsection \<open>Scenarios\<close>

text \<open>
  The model on the examples of the specification, in the sample environment: the stdin
  location, bare and aliased datasource arguments, a bare argument with a directory,
  the defaults for an inline input and for an input directory, and \<open>execPipe\<close>
  without a \<open>postExec\<close> command.
\<close>

lemma parseSourceURL_stdin: "map_sum id Scheme (parseSourceURL sampleEnv ''-'') = Inr ''stdin''"
  by code_simp

lemma absFileURL_sample:
  "absFileURL sampleEnv ''data.json'' =
     Inr (emptyURL\<lparr>Scheme := ''file'', Path := ''/home/user/data.json''\<rparr>)"
  by code_simp

lemma parseSourceURL_sample:
  "parseSourceURL sampleEnv ''bar/data.json'' =
     Inr (emptyURL\<lparr>Scheme := ''file'', Path := ''/home/user/bar/data.json''\<rparr>)"
  by code_simp

lemma SplitN2_samples:
  "SplitN2 ''data.json'' (CHR ''='') = [''data.json'']"
  "SplitN2 ''data.json'' (CHR ''.'') = [''data'', ''json'']"
  "SplitN2 ''foo=bar/data.json'' (CHR ''='') = [''foo'', ''bar/data.json'']"
  "SplitN2 ''bar/data.json'' (CHR ''='') = [''bar/data.json'']"
  "SplitN2 ''bar/data.json'' (CHR ''.'') = [''bar/data'', ''json'']"
  by code_simp+

lemma Base_samples: "Base ''data.json'' = ''data.json''" "Base ''bar/data.json'' = ''data.json''"
  by code_simp+

lemma parseDatasourceArg_bare:
  "parseDatasourceArg sampleEnv ''data.json'' =
     Inr (''data'', \<lparr>URL = Some (emptyURL\<lparr>Scheme := ''file'', Path := ''/home/user/data.json''\<rparr>),
                     Header = None\<rparr>)"
  by (simp add: parseDatasourceArg_def SplitN2_samples Base_samples absFileURL_sample)

lemma parseDatasourceArg_alias:
  "parseDatasourceArg sampleEnv ''foo=bar/data.json'' =
     Inr (''foo'', \<lparr>URL = Some (emptyURL\<lparr>Scheme := ''file'', Path := ''/home/user/bar/data.json''\<rparr>),
                    Header = None\<rparr>)"
  by (simp add: parseDatasourceArg_def SplitN2_samples parseSourceURL_sample)

lemma parseDatasourceArg_directory:
  "parseDatasourceArg sampleEnv ''bar/data.json'' = Inl (InvalidDatasource ''bar/data.json'')"
  by (simp add: parseDatasourceArg_def SplitN2_samples Base_samples)

lemma ApplyDefaults_inline_input:
  "OutputFiles (ApplyDefaults (emptyConfig\<lparr>Input := ''hello''\<rparr>)) = [''-''] \<and>
   GetMode (ApplyDefaults (emptyConfig\<lparr>Input := ''hello''\<rparr>)) = Inr (0x1A4, False)"
  by (simp add: ApplyDefaults_OutputFiles ApplyDefaults_OutputDir ApplyDefaults_kept emptyConfig_def
      GetMode_def ParseUint8_def digitVal_def ApplyDefaults_upd)

lemma ApplyDefaults_input_dir:
  "OutputDir (ApplyDefaults (emptyConfig\<lparr>InputDir := ''src''\<rparr>)) = ''.''"
  by (simp add: ApplyDefaults_OutputDir emptyConfig_def)

lemma Validate_execPipe_without_postExec:
  "Validate (emptyConfig\<lparr>ExecPipe := True\<rparr>) = Some ExecPipeNeedsPostExec"
  by (simp add: Validate_def emptyConfig_def notTogether_def mustTogether_def orElse_def
      checkCounts_def checkPostExec_def)

end
